theory Spec2Isabelle
  imports Complex_Main
begin

section \<open>Python outcomes\<close>

text \<open>
  A Python call either returns a value or raises. A raise is \<open>Inl\<close> of the exception,
  a normal return is \<open>Inr\<close> of the value. The messages of the source are Russian texts;
  each is named here by a constructor of \<open>detail\<close>.
\<close>

datatype detail =
    UsernameMe_signup          \<comment> \<open>serializers.py, SignUpSerializer.validate\<close>
  | UsernameMe_save            \<comment> \<open>models.py, User.save\<close>
  | ReviewOnlyOnce             \<comment> \<open>serializers.py, ReviewSerializer.validate\<close>
  | WrongConfirmationCode      \<comment> \<open>views.py, token\<close>
  | FieldErrors "string list"  \<comment> \<open>the names of the serializer fields that failed\<close>

datatype error =
    ValidationError detail
  | Http404
  | NotAuthenticated
  | PermissionDenied
  | IntegrityError string
  | DoesNotExist
  | MultipleObjectsReturned
  | TypeError
  | ValueError
  | AttributeError
  | KeyError

section \<open>reviews/models.py: the data model\<close>

definition USER :: string where "USER = ''user''"
definition MODERATOR :: string where "MODERATOR = ''moderator''"
definition ADMIN :: string where "ADMIN = ''admin''"

definition ROLE_CHOICES :: "string list" where
  "ROLE_CHOICES = [ADMIN, USER, MODERATOR]"

text \<open>
  A model instance carries its primary key, \<open>None\<close> until the row is inserted. A foreign
  key holds the primary key of the row it points to. The columns \<open>pub_date\<close>
  (set by the database clock) and the password columns of \<open>AbstractUser\<close> are read by
  no function below and are left out.
\<close>

record User =
  pk :: "nat option"
  username :: string
  first_name :: string
  last_name :: string
  email :: string
  bio :: string
  is_active :: bool
  role :: string
  is_superuser :: bool

record Category =
  category_pk :: "nat option"
  category_name :: string
  category_slug :: string

record Genre =
  genre_pk :: "nat option"
  genre_name :: string
  genre_slug :: string

record Title =
  title_pk :: "nat option"
  title_name :: string
  title_year :: nat
  title_description :: string
  title_category :: "nat option"   \<comment> \<open>ForeignKey(Category, SET_NULL, null=True)\<close>

record GenreTitle =
  gt_pk :: "nat option"
  gt_title :: nat                  \<comment> \<open>ForeignKey(Title, CASCADE)\<close>
  gt_genre :: "nat option"         \<comment> \<open>ForeignKey(Genre, SET_NULL, null=True)\<close>

record Review =
  review_pk :: "nat option"
  review_text :: string
  review_title :: nat              \<comment> \<open>ForeignKey(Title, CASCADE)\<close>
  review_author :: nat             \<comment> \<open>ForeignKey(User, CASCADE)\<close>
  review_score :: int

record Comment =
  comment_pk :: "nat option"
  comment_text :: string
  comment_review :: nat            \<comment> \<open>ForeignKey(Review, CASCADE)\<close>
  comment_author :: nat            \<comment> \<open>ForeignKey(User, CASCADE)\<close>

text \<open>The store: one list of rows per table, and the mails handed to the mail transport.\<close>

record store =
  users :: "User list"
  categories :: "Category list"
  genres :: "Genre list"
  titles :: "Title list"
  genre_titles :: "GenreTitle list"
  reviews :: "Review list"
  comments :: "Comment list"
  outbox :: "(string \<times> string \<times> string) list"

section \<open>api/permissions.py\<close>

text \<open>
  \<open>request.user\<close> is a \<open>User\<close> row or Django's \<open>AnonymousUser\<close>, which is not
  authenticated, is no superuser and has no attribute \<open>role\<close>.
\<close>

datatype actor = AnonymousUser | Authenticated User

record request =
  req_method :: string      \<comment> \<open>request.method\<close>
  user :: actor

definition SAFE_METHODS :: "string list" where
  "SAFE_METHODS = [''GET'', ''HEAD'', ''OPTIONS'']"

fun is_authenticated :: "actor \<Rightarrow> bool" where
  "is_authenticated AnonymousUser = False"
| "is_authenticated (Authenticated u) = True"

fun actor_is_superuser :: "actor \<Rightarrow> bool" where
  "actor_is_superuser AnonymousUser = False"
| "actor_is_superuser (Authenticated u) = is_superuser u"

fun actor_role :: "actor \<Rightarrow> error + string" where
  "actor_role AnonymousUser = Inl AttributeError"
| "actor_role (Authenticated u) = Inr (role u)"

text \<open>
  \<open>obj.author == request.user\<close>: Django compares model instances by primary key; an
  \<open>AnonymousUser\<close> equals no row.
\<close>

fun author_is :: "nat \<Rightarrow> actor \<Rightarrow> bool" where
  "author_is a AnonymousUser = False"
| "author_is a (Authenticated u) = (pk u = Some a)"

datatype obj =
    CategoryObj Category
  | GenreObj Genre
  | TitleObj Title
  | ReviewObj Review
  | CommentObj Comment

fun obj_author :: "obj \<Rightarrow> error + nat" where
  "obj_author (ReviewObj r) = Inr (review_author r)"
| "obj_author (CommentObj c) = Inr (comment_author c)"
| "obj_author _ = Inl AttributeError"

definition OwnerAdminModeratorOrReadOnly_has_permission :: "request \<Rightarrow> error + bool" where
  "OwnerAdminModeratorOrReadOnly_has_permission req =
     Inr (req_method req \<in> set SAFE_METHODS \<or> is_authenticated (user req))"

definition OwnerAdminModeratorOrReadOnly_has_object_permission ::
    "request \<Rightarrow> obj \<Rightarrow> error + bool" where
  "OwnerAdminModeratorOrReadOnly_has_object_permission req ob =
     (if req_method req \<in> set SAFE_METHODS then Inr True
      else case obj_author ob of
        Inl e \<Rightarrow> Inl e
      | Inr a \<Rightarrow>
          if author_is a (user req) then Inr True
          else (case actor_role (user req) of
                  Inl e \<Rightarrow> Inl e
                | Inr r \<Rightarrow>
                    Inr (r \<in> set [MODERATOR, ADMIN] \<or> actor_is_superuser (user req))))"

text \<open>\<open>rest_framework.permissions.IsAuthenticated\<close>, the base class of \<open>IsAdmin\<close>.\<close>

definition IsAuthenticated_has_permission :: "request \<Rightarrow> error + bool" where
  "IsAuthenticated_has_permission req = Inr (is_authenticated (user req))"

definition IsAdmin_has_permission :: "request \<Rightarrow> error + bool" where
  "IsAdmin_has_permission req =
     (case IsAuthenticated_has_permission req of
        Inl e \<Rightarrow> Inl e
      | Inr False \<Rightarrow> Inr False
      | Inr True \<Rightarrow>
          (case actor_role (user req) of
             Inl e \<Rightarrow> Inl e
           | Inr r \<Rightarrow> Inr (r = ADMIN \<or> actor_is_superuser (user req))))"

definition IsAdminOrReadOnly_has_permission :: "request \<Rightarrow> error + bool" where
  "IsAdminOrReadOnly_has_permission req =
     (if req_method req \<in> set SAFE_METHODS then Inr True else IsAdmin_has_permission req)"

datatype permission_class =
    IsAuthenticated
  | IsAdmin
  | IsAdminOrReadOnly
  | OwnerAdminModeratorOrReadOnly

fun has_permission :: "permission_class \<Rightarrow> request \<Rightarrow> error + bool" where
  "has_permission IsAuthenticated req = IsAuthenticated_has_permission req"
| "has_permission IsAdmin req = IsAdmin_has_permission req"
| "has_permission IsAdminOrReadOnly req = IsAdminOrReadOnly_has_permission req"
| "has_permission OwnerAdminModeratorOrReadOnly req =
     OwnerAdminModeratorOrReadOnly_has_permission req"

text \<open>
  Only \<open>OwnerAdminModeratorOrReadOnly\<close> overrides \<open>has_object_permission\<close>; the others
  inherit \<open>BasePermission\<close>'s, which returns \<open>True\<close>.
\<close>

fun has_object_permission :: "permission_class \<Rightarrow> request \<Rightarrow> obj \<Rightarrow> error + bool" where
  "has_object_permission OwnerAdminModeratorOrReadOnly req ob =
     OwnerAdminModeratorOrReadOnly_has_object_permission req ob"
| "has_object_permission _ req ob = Inr True"

section \<open>api/views.py: the permission classes of the view sets\<close>

datatype viewset =
    UserViewSet
  | CategoryViewSet
  | GenreViewSet
  | TitleViewSet
  | ReviewViewSet
  | CommentViewSet

fun permission_classes :: "viewset \<Rightarrow> permission_class list" where
  "permission_classes UserViewSet = [IsAdmin]"
| "permission_classes CategoryViewSet = [IsAdminOrReadOnly]"
| "permission_classes GenreViewSet = [IsAdminOrReadOnly]"
| "permission_classes TitleViewSet = [IsAdminOrReadOnly]"
| "permission_classes ReviewViewSet = [OwnerAdminModeratorOrReadOnly]"
| "permission_classes CommentViewSet = [OwnerAdminModeratorOrReadOnly]"

text \<open>
  The framework's \<open>APIView.check_permissions\<close> asks every class in turn and denies at the
  first that answers false; \<open>check_object_permissions\<close> does the same with
  \<open>has_object_permission\<close>, and runs (in \<open>get_object\<close>) only after
  \<open>check_permissions\<close> has let the request through.
\<close>

fun check_permissions :: "permission_class list \<Rightarrow> request \<Rightarrow> error + bool" where
  "check_permissions [] req = Inr True"
| "check_permissions (p # ps) req =
     (case has_permission p req of
        Inl e \<Rightarrow> Inl e
      | Inr False \<Rightarrow> Inr False
      | Inr True \<Rightarrow> check_permissions ps req)"

fun check_object_permissions :: "permission_class list \<Rightarrow> request \<Rightarrow> obj \<Rightarrow> error + bool" where
  "check_object_permissions [] req ob = Inr True"
| "check_object_permissions (p # ps) req ob =
     (case has_object_permission p req ob of
        Inl e \<Rightarrow> Inl e
      | Inr False \<Rightarrow> Inr False
      | Inr True \<Rightarrow> check_object_permissions ps req ob)"

text \<open>
  An operation is on the collection (list, create) or on one object (retrieve, update,
  delete).
\<close>

datatype level = ListCreate | ObjectLevel

definition permitted :: "viewset \<Rightarrow> level \<Rightarrow> request \<Rightarrow> obj \<Rightarrow> error + bool" where
  "permitted vs lvl req ob =
     (case check_permissions (permission_classes vs) req of
        Inl e \<Rightarrow> Inl e
      | Inr False \<Rightarrow> Inr False
      | Inr True \<Rightarrow>
          (case lvl of
             ListCreate \<Rightarrow> Inr True
           | ObjectLevel \<Rightarrow> check_object_permissions (permission_classes vs) req ob))"

text \<open>
  The table of the specification, section 4.1, written from its words: safe methods are
  always allowed; a write on Category, Genre or Title needs an authenticated actor with
  role admin or the superuser flag; a list-level write on Review or Comment needs an
  authenticated actor; an object-level write on Review or Comment needs the author, or
  the role moderator or admin, or the superuser flag.
\<close>

fun actor_has_role :: "actor \<Rightarrow> string \<Rightarrow> bool" where
  "actor_has_role AnonymousUser r = False"
| "actor_has_role (Authenticated u) r = (role u = r)"

datatype resource = CategoryR | GenreR | TitleR | ReviewR | CommentR

fun table_4_1 :: "resource \<Rightarrow> level \<Rightarrow> bool \<Rightarrow> actor \<Rightarrow> bool \<Rightarrow> bool" where
  "table_4_1 res lvl True a owner = True"
| "table_4_1 CategoryR lvl False a owner =
     (is_authenticated a \<and> (actor_has_role a ''admin'' \<or> actor_is_superuser a))"
| "table_4_1 GenreR lvl False a owner =
     (is_authenticated a \<and> (actor_has_role a ''admin'' \<or> actor_is_superuser a))"
| "table_4_1 TitleR lvl False a owner =
     (is_authenticated a \<and> (actor_has_role a ''admin'' \<or> actor_is_superuser a))"
| "table_4_1 ReviewR ListCreate False a owner = is_authenticated a"
| "table_4_1 CommentR ListCreate False a owner = is_authenticated a"
| "table_4_1 ReviewR ObjectLevel False a owner =
     (owner \<or> actor_has_role a ''moderator'' \<or> actor_has_role a ''admin'' \<or> actor_is_superuser a)"
| "table_4_1 CommentR ObjectLevel False a owner =
     (owner \<or> actor_has_role a ''moderator'' \<or> actor_has_role a ''admin'' \<or> actor_is_superuser a)"

section \<open>The storage layer\<close>

text \<open>
  What the database and Django's \<open>Model.save\<close>, \<open>QuerySet.get\<close>, \<open>create\<close> and
  \<open>get_or_create\<close> do with the tables and constraints that \<open>reviews/models.py\<close>
  declares. A violated constraint raises \<open>IntegrityError\<close> and writes nothing.
\<close>

definition next_pk :: "nat option list \<Rightarrow> nat" where
  "next_pk ks = Suc (fold max (map (case_option 0 id) ks) 0)"

text \<open>
  The constraints of the user table: \<open>unique=True\<close> on \<open>username\<close> and on \<open>email\<close>,
  and the \<open>CheckConstraint\<close> \<open>~Q(username="me")\<close> of \<open>User.Meta\<close>. \<open>others\<close> are the
  rows the new or changed row is checked against.
\<close>

definition user_violation :: "User list \<Rightarrow> User \<Rightarrow> error option" where
  "user_violation others u =
     (if username u = ''me'' then Some (IntegrityError ''check_username_not_me'')
      else if username u \<in> set (map username others) then
        Some (IntegrityError ''unique_username'')
      else if email u \<in> set (map email others) then Some (IntegrityError ''unique_email'')
      else None)"

text \<open>
  \<open>Model.save\<close> on a user: an instance without primary key, or \<open>force_insert\<close>, or a
  key that no row has, is inserted; otherwise the row with that key is replaced. The
  result is the instance as it is after the call.
\<close>

definition Model_save_User :: "bool \<Rightarrow> store \<Rightarrow> User \<Rightarrow> (error + User) \<times> store" where
  "Model_save_User force_insert st u =
     (case pk u of
        None \<Rightarrow>
          (case user_violation (users st) u of
             Some e \<Rightarrow> (Inl e, st)
           | None \<Rightarrow>
               (let u' = u\<lparr>pk := Some (next_pk (map pk (users st)))\<rparr>
                in (Inr u', st\<lparr>users := users st @ [u']\<rparr>)))
      | Some k \<Rightarrow>
          if Some k \<in> set (map pk (users st)) then
            (if force_insert then (Inl (IntegrityError ''primary_key''), st)
             else
               (case user_violation (filter (\<lambda>x. pk x \<noteq> Some k) (users st)) u of
                  Some e \<Rightarrow> (Inl e, st)
                | None \<Rightarrow>
                    (Inr u, st\<lparr>users := map (\<lambda>x. if pk x = Some k then u else x) (users st)\<rparr>)))
          else
            (case user_violation (users st) u of
               Some e \<Rightarrow> (Inl e, st)
             | None \<Rightarrow> (Inr u, st\<lparr>users := users st @ [u]\<rparr>)))"

text \<open>
  \<open>User.save\<close> (models.py, lines 76 to 80). For the username \<open>me\<close> the source executes
  \<open>return ValidationError(...)\<close>: the call returns the exception object and saves
  nothing. A normal return is \<open>Inr (v, u)\<close> with \<open>v\<close> the returned value (\<open>None\<close> is
  Python's \<open>None\<close>) and \<open>u\<close> the instance after the call.
\<close>

definition User_save ::
    "bool \<Rightarrow> store \<Rightarrow> User \<Rightarrow> (error + (error option \<times> User)) \<times> store" where
  "User_save force_insert st u =
     (if username u = ''me'' then (Inr (Some (ValidationError UsernameMe_save), u), st)
      else
        (case Model_save_User force_insert st u of
           (Inl e, st') \<Rightarrow> (Inl e, st')
         | (Inr u', st') \<Rightarrow> (Inr (None, u'), st')))"

text \<open>\<open>QuerySet.create\<close>: build the instance, \<open>save(force_insert=True)\<close>, return it.\<close>

definition User_objects_create :: "store \<Rightarrow> User \<Rightarrow> (error + User) \<times> store" where
  "User_objects_create st u =
     (case User_save True st u of
        (Inl e, st') \<Rightarrow> (Inl e, st')
      | (Inr (v, u'), st') \<Rightarrow> (Inr u', st'))"

text \<open>\<open>QuerySet.get\<close>: exactly one row must match.\<close>

definition objects_get :: "('a \<Rightarrow> bool) \<Rightarrow> 'a list \<Rightarrow> error + 'a" where
  "objects_get P rows =
     (case filter P rows of
        [] \<Rightarrow> Inl DoesNotExist
      | [x] \<Rightarrow> Inr x
      | x # y # zs \<Rightarrow> Inl MultipleObjectsReturned)"

definition get_object_or_404 :: "('a \<Rightarrow> bool) \<Rightarrow> 'a list \<Rightarrow> error + 'a" where
  "get_object_or_404 P rows =
     (case objects_get P rows of
        Inl DoesNotExist \<Rightarrow> Inl Http404
      | Inl e \<Rightarrow> Inl e
      | Inr x \<Rightarrow> Inr x)"

text \<open>A user built from a username and an email alone takes the defaults of the model.\<close>

definition new_User :: "string \<Rightarrow> string \<Rightarrow> User" where
  "new_User name mail =
     \<lparr>pk = None, username = name, first_name = [], last_name = [], email = mail, bio = [],
      is_active = True, role = USER, is_superuser = False\<rparr>"

text \<open>
  \<open>User.objects.get_or_create(username=..., email=...)\<close>: look the pair up; when no row
  has both, create one; when the insert violates a constraint, look the pair up once
  more and raise the \<open>IntegrityError\<close> again when it is still absent.
\<close>

definition User_objects_get_or_create ::
    "store \<Rightarrow> string \<Rightarrow> string \<Rightarrow> (error + User) \<times> store" where
  "User_objects_get_or_create st name mail =
     (case objects_get (\<lambda>x. username x = name \<and> email x = mail) (users st) of
        Inr x \<Rightarrow> (Inr x, st)
      | Inl DoesNotExist \<Rightarrow>
          (case User_objects_create st (new_User name mail) of
             (Inr x, st') \<Rightarrow> (Inr x, st')
           | (Inl (IntegrityError c), st') \<Rightarrow>
               (case objects_get (\<lambda>x. username x = name \<and> email x = mail) (users st') of
                  Inr x \<Rightarrow> (Inr x, st')
                | Inl DoesNotExist \<Rightarrow> (Inl (IntegrityError c), st')
                | Inl e \<Rightarrow> (Inl e, st'))
           | (Inl e, st') \<Rightarrow> (Inl e, st'))
      | Inl e \<Rightarrow> (Inl e, st))"

text \<open>
  The review table: the \<open>UniqueConstraint\<close> on \<open>(author, title)\<close> of \<open>Review.Meta\<close>
  and the two foreign keys.
\<close>

definition review_violation :: "store \<Rightarrow> Review \<Rightarrow> error option" where
  "review_violation st r =
     (if (review_author r, review_title r)
           \<in> set (map (\<lambda>x. (review_author x, review_title x)) (reviews st)) then
        Some (IntegrityError ''author_title_only_on_review'')
      else if Some (review_title r) \<notin> set (map title_pk (titles st)) then
        Some (IntegrityError ''foreign_key_title'')
      else if Some (review_author r) \<notin> set (map pk (users st)) then
        Some (IntegrityError ''foreign_key_author'')
      else None)"

definition Review_objects_create :: "store \<Rightarrow> Review \<Rightarrow> (error + Review) \<times> store" where
  "Review_objects_create st r =
     (case review_violation st r of
        Some e \<Rightarrow> (Inl e, st)
      | None \<Rightarrow>
          (let r' = r\<lparr>review_pk := Some (next_pk (map review_pk (reviews st)))\<rparr>
           in (Inr r', st\<lparr>reviews := reviews st @ [r']\<rparr>)))"

text \<open>
  Deletion follows the \<open>on_delete\<close> of every foreign key that points to the deleted row:
  \<open>CASCADE\<close> deletes the pointing row (and what points to it), \<open>SET_NULL\<close> keeps the row
  and clears the reference.
\<close>

definition Genre_delete :: "store \<Rightarrow> nat \<Rightarrow> store" where
  "Genre_delete st g =
     st\<lparr>genres := filter (\<lambda>x. genre_pk x \<noteq> Some g) (genres st),
        genre_titles :=
          map (\<lambda>j. if gt_genre j = Some g then j\<lparr>gt_genre := None\<rparr> else j) (genre_titles st)\<rparr>"

definition Category_delete :: "store \<Rightarrow> nat \<Rightarrow> store" where
  "Category_delete st c =
     st\<lparr>categories := filter (\<lambda>x. category_pk x \<noteq> Some c) (categories st),
        titles :=
          map (\<lambda>t. if title_category t = Some c then t\<lparr>title_category := None\<rparr> else t)
            (titles st)\<rparr>"

definition Title_delete :: "store \<Rightarrow> nat \<Rightarrow> store" where
  "Title_delete st t =
     (let gone = filter (\<lambda>r. review_title r = t) (reviews st)
      in st\<lparr>titles := filter (\<lambda>x. title_pk x \<noteq> Some t) (titles st),
            genre_titles := filter (\<lambda>j. gt_title j \<noteq> t) (genre_titles st),
            reviews := filter (\<lambda>r. review_title r \<noteq> t) (reviews st),
            comments :=
              filter (\<lambda>c. Some (comment_review c) \<notin> set (map review_pk gone)) (comments st)\<rparr>)"

section \<open>reviews/models.py: slugs of categories and genres\<close>

text \<open>
  \<open>rand_slug\<close> joins six characters drawn from the letters and digits; the draws are
  the argument here (each an index into the alphabet).
\<close>

definition alphabet :: string where
  "alphabet = ''abcdefghijklmnopqrstuvwxyzABCDEFGHIJKLMNOPQRSTUVWXYZ0123456789''"

definition rand_slug :: "nat list \<Rightarrow> string" where
  "rand_slug draws = map (\<lambda>i. alphabet ! (i mod length alphabet)) (take 6 draws)"

text \<open>
  The values the expression \<open>rand_slug + "-" + self.name[:15]\<close> works on: a string, or
  the function object \<open>rand_slug\<close> (the source names the function and does not call it).
  Python's \<open>+\<close> joins two strings and raises \<open>TypeError\<close> on a function.
\<close>

datatype pyval = PyStr string | PyFunction "nat list \<Rightarrow> string"

fun py_add :: "pyval \<Rightarrow> pyval \<Rightarrow> error + pyval" where
  "py_add (PyStr a) (PyStr b) = Inr (PyStr (a @ b))"
| "py_add _ _ = Inl TypeError"

text \<open>
  The value assigned to \<open>self.slug\<close> when the slug is empty:
  \<open>slugify(rand_slug + "-" + self.name[:15])\<close>, with Django's \<open>slugify\<close> a parameter.
\<close>

definition derived_slug :: "(string \<Rightarrow> string) \<Rightarrow> string \<Rightarrow> error + string" where
  "derived_slug slugify name =
     (case py_add (PyFunction rand_slug) (PyStr ''-'') of
        Inl e \<Rightarrow> Inl e
      | Inr v \<Rightarrow>
          (case py_add v (PyStr (take 15 name)) of
             Inl e \<Rightarrow> Inl e
           | Inr (PyStr s) \<Rightarrow> Inr (slugify s)
           | Inr (PyFunction f) \<Rightarrow> Inl TypeError))"

definition category_violation :: "Category list \<Rightarrow> Category \<Rightarrow> error option" where
  "category_violation others c =
     (if category_name c \<in> set (map category_name others) then
        Some (IntegrityError ''unique_name'')
      else if category_slug c \<in> set (map category_slug others) then
        Some (IntegrityError ''unique_slug'')
      else None)"

definition Model_save_Category :: "store \<Rightarrow> Category \<Rightarrow> (error + Category) \<times> store" where
  "Model_save_Category st c =
     (case category_pk c of
        None \<Rightarrow>
          (case category_violation (categories st) c of
             Some e \<Rightarrow> (Inl e, st)
           | None \<Rightarrow>
               (let c' = c\<lparr>category_pk := Some (next_pk (map category_pk (categories st)))\<rparr>
                in (Inr c', st\<lparr>categories := categories st @ [c']\<rparr>)))
      | Some k \<Rightarrow>
          (case category_violation (filter (\<lambda>x. category_pk x \<noteq> Some k) (categories st)) c of
             Some e \<Rightarrow> (Inl e, st)
           | None \<Rightarrow>
               if Some k \<in> set (map category_pk (categories st)) then
                 (Inr c, st\<lparr>categories :=
                    map (\<lambda>x. if category_pk x = Some k then c else x) (categories st)\<rparr>)
               else (Inr c, st\<lparr>categories := categories st @ [c]\<rparr>)))"

definition Category_save ::
    "(string \<Rightarrow> string) \<Rightarrow> store \<Rightarrow> Category \<Rightarrow> (error + Category) \<times> store" where
  "Category_save slugify st c =
     (if category_slug c = [] then
        (case derived_slug slugify (category_name c) of
           Inl e \<Rightarrow> (Inl e, st)
         | Inr s \<Rightarrow> Model_save_Category st (c\<lparr>category_slug := s\<rparr>))
      else Model_save_Category st c)"

definition genre_violation :: "Genre list \<Rightarrow> Genre \<Rightarrow> error option" where
  "genre_violation others g =
     (if genre_name g \<in> set (map genre_name others) then Some (IntegrityError ''unique_name'')
      else if genre_slug g \<in> set (map genre_slug others) then
        Some (IntegrityError ''unique_slug'')
      else None)"

definition Model_save_Genre :: "store \<Rightarrow> Genre \<Rightarrow> (error + Genre) \<times> store" where
  "Model_save_Genre st g =
     (case genre_pk g of
        None \<Rightarrow>
          (case genre_violation (genres st) g of
             Some e \<Rightarrow> (Inl e, st)
           | None \<Rightarrow>
               (let g' = g\<lparr>genre_pk := Some (next_pk (map genre_pk (genres st)))\<rparr>
                in (Inr g', st\<lparr>genres := genres st @ [g']\<rparr>)))
      | Some k \<Rightarrow>
          (case genre_violation (filter (\<lambda>x. genre_pk x \<noteq> Some k) (genres st)) g of
             Some e \<Rightarrow> (Inl e, st)
           | None \<Rightarrow>
               if Some k \<in> set (map genre_pk (genres st)) then
                 (Inr g, st\<lparr>genres := map (\<lambda>x. if genre_pk x = Some k then g else x) (genres st)\<rparr>)
               else (Inr g, st\<lparr>genres := genres st @ [g]\<rparr>)))"

definition Genre_save ::
    "(string \<Rightarrow> string) \<Rightarrow> store \<Rightarrow> Genre \<Rightarrow> (error + Genre) \<times> store" where
  "Genre_save slugify st g =
     (if genre_slug g = [] then
        (case derived_slug slugify (genre_name g) of
           Inl e \<Rightarrow> (Inl e, st)
         | Inr s \<Rightarrow> Model_save_Genre st (g\<lparr>genre_slug := s\<rparr>))
      else Model_save_Genre st g)"

section \<open>The framework around the views\<close>

text \<open>
  What the views receive from Django and the REST framework and the code of this
  repository does not define: the two format validators and the confirmation-code
  generator (\<open>default_token_generator\<close>). An access token is the set of its claims;
  the string the view returns is the signed form of exactly these claims.
\<close>

record AccessToken =
  token_type :: string
  user_id :: "nat option"

record framework =
  EmailValidator :: "string \<Rightarrow> bool"
  UnicodeUsernameValidator :: "string \<Rightarrow> bool"
  make_token :: "User \<Rightarrow> string"
  check_token :: "User \<Rightarrow> string \<Rightarrow> bool"

text \<open>\<open>AccessToken.for_user\<close>: the identity claim \<open>user_id\<close> is the user's primary key.\<close>

definition AccessToken_for_user :: "User \<Rightarrow> AccessToken" where
  "AccessToken_for_user u = \<lparr>token_type = ''access'', user_id = pk u\<rparr>"

datatype body =
    DictBody "(string \<times> string) list"
  | TokenBody string AccessToken   \<comment> \<open>\<open>{"username": ..., "token": str(token)}\<close>\<close>
  | UserBody User
  | ReviewBody Review
  | TextBody string
  | ErrorsBody detail

record response =
  status :: nat
  body :: body

text \<open>
  The status a client sees: that of the returned response, or the one the framework's
  exception handler gives to a raised exception (an exception it does not know is a
  server error).
\<close>

fun http_status :: "error + response \<Rightarrow> nat" where
  "http_status (Inr r) = status r"
| "http_status (Inl (ValidationError d)) = 400"
| "http_status (Inl NotAuthenticated) = 401"
| "http_status (Inl PermissionDenied) = 403"
| "http_status (Inl Http404) = 404"
| "http_status (Inl e) = 500"

fun permission_denied :: "actor \<Rightarrow> error" where
  "permission_denied AnonymousUser = NotAuthenticated"
| "permission_denied (Authenticated u) = PermissionDenied"

text \<open>
  A character of a \<open>string\<close> is a code point below 256. \<open>isspace\<close> lists every
  such code point that Python's \<open>str.isspace\<close> accepts, which are the characters that
  \<open>str.strip\<close> removes from both ends.
\<close>

definition isspace :: "char \<Rightarrow> bool" where
  "isspace c = (c \<in> set [CHR 0x09, CHR 0x0A, CHR 0x0B, CHR 0x0C, CHR 0x0D,
                          CHR 0x1C, CHR 0x1D, CHR 0x1E, CHR 0x1F, CHR 0x20,
                          CHR 0x85, CHR 0xA0])"

definition strip :: "string \<Rightarrow> string" where
  "strip s = rev (dropWhile isspace (rev (dropWhile isspace s)))"

text \<open>
  A serializer \<open>CharField\<close> on a string: the key must be present; a value that is
  empty once stripped is a field error unless \<open>allow_blank\<close>, which turns it into the
  empty string; otherwise the value is stripped and the field's validator
  \<open>ProhibitNullCharactersValidator\<close> refuses a NUL character in it. \<open>None\<close> is a field
  error.
\<close>

definition CharField :: "bool \<Rightarrow> string option \<Rightarrow> string option" where
  "CharField allow_blank d =
     (case d of
        None \<Rightarrow> None
      | Some s \<Rightarrow>
          if strip s = [] then (if allow_blank then Some [] else None)
          else if CHR 0x00 \<in> set (strip s) then None
          else Some (strip s))"

definition EmailField :: "framework \<Rightarrow> string option \<Rightarrow> string option" where
  "EmailField fw d =
     (case CharField False d of
        None \<Rightarrow> None
      | Some s \<Rightarrow> if EmailValidator fw s then Some s else None)"

section \<open>api/serializers.py and api/views.py: signup and token\<close>

record signup_data =
  sd_email :: string
  sd_username :: string

text \<open>
  The fields of \<open>SignUpSerializer\<close>. The source passes the class
  \<open>UnicodeUsernameValidator\<close>, not an instance, as the validator of \<open>username\<close>:
  calling it with the value builds a validator object and checks nothing.
\<close>

definition SignUpSerializer_fields :: "framework \<Rightarrow> (string \<rightharpoonup> string) \<Rightarrow> error + signup_data" where
  "SignUpSerializer_fields fw data =
     (case (EmailField fw (data ''email''), CharField False (data ''username'')) of
        (Some e, Some u) \<Rightarrow> Inr \<lparr>sd_email = e, sd_username = u\<rparr>
      | (e, u) \<Rightarrow>
          Inl (ValidationError (FieldErrors
            ((if e = None then [''email''] else []) @ (if u = None then [''username''] else [])))))"

definition SignUpSerializer_validate :: "signup_data \<Rightarrow> error + signup_data" where
  "SignUpSerializer_validate data =
     (if sd_username data = ''me'' then Inl (ValidationError UsernameMe_signup) else Inr data)"

text \<open>
  \<open>is_valid(raise_exception=True)\<close>: the field checks, then \<open>validate\<close>; the framework
  turns the Django \<open>ValidationError\<close> that \<open>validate\<close> raises into its own.
\<close>

definition SignUpSerializer_is_valid ::
    "framework \<Rightarrow> (string \<rightharpoonup> string) \<Rightarrow> error + signup_data" where
  "SignUpSerializer_is_valid fw data =
     (case SignUpSerializer_fields fw data of
        Inl e \<Rightarrow> Inl e
      | Inr d \<Rightarrow> SignUpSerializer_validate d)"

definition email_user :: "store \<Rightarrow> User \<Rightarrow> string \<Rightarrow> string \<Rightarrow> store" where
  "email_user st u subject message = st\<lparr>outbox := outbox st @ [(email u, subject, message)]\<rparr>"

definition signup ::
    "framework \<Rightarrow> store \<Rightarrow> (string \<rightharpoonup> string) \<Rightarrow> (error + response) \<times> store" where
  "signup fw st data =
     (case SignUpSerializer_is_valid fw data of
        Inl e \<Rightarrow> (Inl e, st)
      | Inr d \<Rightarrow>
          (case User_objects_get_or_create st (sd_username d) (sd_email d) of
             (Inl (IntegrityError c), st') \<Rightarrow> (Inr \<lparr>status = 400, body = TextBody c\<rparr>, st')
           | (Inl e, st') \<Rightarrow> (Inl e, st')
           | (Inr u, st') \<Rightarrow>
               (Inr \<lparr>status = 200,
                     body = DictBody [(''email'', sd_email d), (''username'', sd_username d)]\<rparr>,
                email_user st' u ''Confirmation code'' (make_token fw u))))"

text \<open>
  \<open>TokenSerializer\<close>: two required, non-blank \<open>CharField\<close>s (the validator of
  \<open>username\<close> is again the class and checks nothing).
\<close>

definition TokenSerializer_is_valid :: "(string \<rightharpoonup> string) \<Rightarrow> error + unit" where
  "TokenSerializer_is_valid data =
     (case (CharField False (data ''username''), CharField False (data ''confirmation_code'')) of
        (Some u, Some c) \<Rightarrow> Inr ()
      | (u, c) \<Rightarrow>
          Inl (ValidationError (FieldErrors
            ((if u = None then [''username''] else []) @
             (if c = None then [''confirmation_code''] else [])))))"

text \<open>
  The view \<open>token\<close>. After \<open>is_valid\<close> both keys are read from \<open>request.data\<close> itself,
  not from the validated data. The answer holds that username and the token that
  \<open>AccessToken.for_user\<close> makes for the user found.
\<close>

definition token :: "framework \<Rightarrow> store \<Rightarrow> (string \<rightharpoonup> string) \<Rightarrow> error + response" where
  "token fw st data =
     (case TokenSerializer_is_valid data of
        Inl (ValidationError d) \<Rightarrow> Inr \<lparr>status = 400, body = ErrorsBody d\<rparr>
      | Inl e \<Rightarrow> Inl e
      | Inr ok \<Rightarrow>
          (case (data ''username'', data ''confirmation_code'') of
             (Some name, Some confirmation_code) \<Rightarrow>
               (case get_object_or_404 (\<lambda>x. username x = name) (users st) of
                  Inl e \<Rightarrow> Inl e
                | Inr u \<Rightarrow>
                    if check_token fw u confirmation_code then
                      Inr \<lparr>status = 200, body = TokenBody name (AccessToken_for_user u)\<rparr>
                    else Inl (ValidationError WrongConfirmationCode))
           | (n, c) \<Rightarrow> Inl KeyError))"

section \<open>api/serializers.py and api/views.py: the self-profile endpoint\<close>

definition user_fields :: "string list" where
  "user_fields = [''username'', ''first_name'', ''last_name'', ''email'', ''bio'', ''role'']"

text \<open>
  The field checks that \<open>UserSerializer\<close>, a \<open>ModelSerializer\<close>, derives from the
  columns of \<open>User\<close>: lengths, the format validators, the \<open>choices\<close> of \<open>role\<close> and
  the uniqueness of \<open>username\<close> and \<open>email\<close> among the other rows. The result is
  the cleaned value, or \<open>None\<close> for a field error.
\<close>

definition clean_user_field ::
    "framework \<Rightarrow> store \<Rightarrow> User \<Rightarrow> string \<Rightarrow> string \<Rightarrow> string option" where
  "clean_user_field fw st inst f v =
     (let others = filter (\<lambda>x. pk x \<noteq> pk inst) (users st) in
      if f = ''username'' then
        (case CharField False (Some v) of
           None \<Rightarrow> None
         | Some s \<Rightarrow>
             if length s \<le> 150 \<and> UnicodeUsernameValidator fw s
                \<and> s \<notin> set (map username others) then Some s else None)
      else if f = ''email'' then
        (case EmailField fw (Some v) of
           None \<Rightarrow> None
         | Some s \<Rightarrow>
             if length s \<le> 254 \<and> s \<notin> set (map email others) then Some s else None)
      else if f = ''role'' then (if v \<in> set ROLE_CHOICES then Some v else None)
      else if f = ''bio'' then CharField True (Some v)
      else
        (case CharField True (Some v) of
           None \<Rightarrow> None
         | Some s \<Rightarrow> if length s \<le> 150 then Some s else None))"

text \<open>
  \<open>is_valid(raise_exception=True)\<close> with \<open>partial=True\<close>: only the fields present in
  the data are checked, and the validated data holds exactly those.
\<close>

definition UserSerializer_is_valid ::
    "framework \<Rightarrow> store \<Rightarrow> User \<Rightarrow> (string \<rightharpoonup> string) \<Rightarrow> error + (string \<rightharpoonup> string)" where
  "UserSerializer_is_valid fw st inst data =
     (let cleaned = (\<lambda>f. if f \<in> set user_fields
                          then (case data f of
                                  None \<Rightarrow> None
                                | Some v \<Rightarrow> Some (clean_user_field fw st inst f v))
                          else None);
          bad = filter (\<lambda>f. cleaned f = Some None) user_fields
      in if bad \<noteq> [] then Inl (ValidationError (FieldErrors bad))
         else Inr (\<lambda>f. case cleaned f of Some (Some s) \<Rightarrow> Some s | _ \<Rightarrow> None))"

text \<open>
  \<open>ModelSerializer.update\<close>: \<open>setattr\<close> for every entry of the validated data, then
  \<open>instance.save()\<close>. An entry that names no column (here \<open>partial\<close>) becomes a plain
  attribute of the object and reaches no row.
\<close>

definition setattrs :: "User \<Rightarrow> (string \<rightharpoonup> string) \<Rightarrow> User" where
  "setattrs u vd =
     u\<lparr>username := (case vd ''username'' of None \<Rightarrow> username u | Some v \<Rightarrow> v),
       first_name := (case vd ''first_name'' of None \<Rightarrow> first_name u | Some v \<Rightarrow> v),
       last_name := (case vd ''last_name'' of None \<Rightarrow> last_name u | Some v \<Rightarrow> v),
       email := (case vd ''email'' of None \<Rightarrow> email u | Some v \<Rightarrow> v),
       bio := (case vd ''bio'' of None \<Rightarrow> bio u | Some v \<Rightarrow> v),
       role := (case vd ''role'' of None \<Rightarrow> role u | Some v \<Rightarrow> v)\<rparr>"

definition UserSerializer_update ::
    "store \<Rightarrow> User \<Rightarrow> (string \<rightharpoonup> string) \<Rightarrow> (error + User) \<times> store" where
  "UserSerializer_update st inst vd =
     (case User_save False st (setattrs inst vd) of
        (Inl e, st') \<Rightarrow> (Inl e, st')
      | (Inr (v, u'), st') \<Rightarrow> (Inr u', st'))"

text \<open>
  \<open>UserViewSet.get_self_user_page\<close>, behind \<open>permissions.IsAuthenticated\<close>.
  \<open>serializer.save(role=request.user.role, partial=True)\<close> adds its keyword arguments
  to the validated data, over what the payload gave.
\<close>

definition get_self_user_page ::
    "framework \<Rightarrow> store \<Rightarrow> request \<Rightarrow> (string \<rightharpoonup> string) \<Rightarrow> (error + response) \<times> store" where
  "get_self_user_page fw st req data =
     (case check_permissions [IsAuthenticated] req of
        Inl e \<Rightarrow> (Inl e, st)
      | Inr False \<Rightarrow> (Inl (permission_denied (user req)), st)
      | Inr True \<Rightarrow>
          (case user req of
             AnonymousUser \<Rightarrow> (Inl AttributeError, st)
           | Authenticated u \<Rightarrow>
               if req_method req = ''GET'' then (Inr \<lparr>status = 200, body = UserBody u\<rparr>, st)
               else
                 (case UserSerializer_is_valid fw st u data of
                    Inl e \<Rightarrow> (Inl e, st)
                  | Inr vd \<Rightarrow>
                      (case UserSerializer_update st u
                              (vd(''role'' \<mapsto> role u, ''partial'' \<mapsto> ''True'')) of
                         (Inl e, st') \<Rightarrow> (Inl e, st')
                       | (Inr u', st') \<Rightarrow> (Inr \<lparr>status = 200, body = UserBody u'\<rparr>, st')))))"

section \<open>api/serializers.py and api/views.py: reviews\<close>

record review_payload =
  rp_text :: "string option"
  rp_score :: "int option"

text \<open>
  The fields of \<open>ReviewSerializer\<close> that a client can write: \<open>text\<close> (required, not
  blank) and \<open>score\<close> (\<open>IntegerField(max_value=10, min_value=1)\<close>).
\<close>

definition ReviewSerializer_fields :: "review_payload \<Rightarrow> error + (string \<times> int)" where
  "ReviewSerializer_fields p =
     (let t = CharField False (rp_text p);
          s = (case rp_score p of
                 None \<Rightarrow> None
               | Some n \<Rightarrow> if 1 \<le> n \<and> n \<le> 10 then Some n else None)
      in case (t, s) of
           (Some t', Some s') \<Rightarrow> Inr (t', s')
         | (a, b) \<Rightarrow>
             Inl (ValidationError (FieldErrors
               ((if t = None then [''text''] else []) @ (if s = None then [''score''] else [])))))"

text \<open>
  \<open>ReviewSerializer.validate\<close>; \<open>title_id\<close> is the keyword argument of the view (the
  number in the URL). The query compares \<open>author\<close> with \<open>request.user\<close>, which Django
  refuses with a \<open>TypeError\<close> for an \<open>AnonymousUser\<close>.
\<close>

definition ReviewSerializer_validate ::
    "store \<Rightarrow> request \<Rightarrow> nat \<Rightarrow> (string \<times> int) \<Rightarrow> error + (string \<times> int)" where
  "ReviewSerializer_validate st req title_id data =
     (if \<not> req_method req = ''POST'' then Inr data
      else
        (case user req of
           AnonymousUser \<Rightarrow> Inl TypeError
         | Authenticated u \<Rightarrow>
             if filter (\<lambda>x. review_title x = title_id \<and> Some (review_author x) = pk u)
                  (reviews st) \<noteq> []
             then Inl (ValidationError ReviewOnlyOnce)
             else Inr data))"

text \<open>
  The create action of \<open>ReviewViewSet\<close>, which the router binds to \<open>POST\<close> on the
  collection: the permission check of the view set, the serializer's
  \<open>is_valid(raise_exception=True)\<close>, then \<open>perform_create\<close>, which looks the title up
  and saves the review with \<open>author=self.request.user\<close> and that title. Django refuses
  an author that is no saved \<open>User\<close> with a \<open>ValueError\<close>.
\<close>

definition perform_create :: "store \<Rightarrow> request \<Rightarrow> nat \<Rightarrow> (string \<times> int) \<Rightarrow> (error + Review) \<times> store" where
  "perform_create st req title_id data =
     (case get_object_or_404 (\<lambda>t. title_pk t = Some title_id) (titles st) of
        Inl e \<Rightarrow> (Inl e, st)
      | Inr title \<Rightarrow>
          (case user req of
             AnonymousUser \<Rightarrow> (Inl ValueError, st)
           | Authenticated u \<Rightarrow>
               (case pk u of
                  None \<Rightarrow> (Inl ValueError, st)
                | Some a \<Rightarrow>
                    Review_objects_create st
                      \<lparr>review_pk = None, review_text = fst data, review_title = title_id,
                       review_author = a, review_score = snd data\<rparr>)))"

definition ReviewViewSet_create ::
    "store \<Rightarrow> actor \<Rightarrow> nat \<Rightarrow> review_payload \<Rightarrow> (error + response) \<times> store" where
  "ReviewViewSet_create st a title_id p =
     (let req = \<lparr>req_method = ''POST'', user = a\<rparr> in
      case check_permissions (permission_classes ReviewViewSet) req of
        Inl e \<Rightarrow> (Inl e, st)
      | Inr False \<Rightarrow> (Inl (permission_denied (user req)), st)
      | Inr True \<Rightarrow>
          (case ReviewSerializer_fields p of
             Inl e \<Rightarrow> (Inl e, st)
           | Inr d \<Rightarrow>
               (case ReviewSerializer_validate st req title_id d of
                  Inl e \<Rightarrow> (Inl e, st)
                | Inr d' \<Rightarrow>
                    (case perform_create st req title_id d' of
                       (Inl e, st') \<Rightarrow> (Inl e, st')
                     | (Inr r, st') \<Rightarrow> (Inr \<lparr>status = 201, body = ReviewBody r\<rparr>, st')))))"

text \<open>The invariant of the review table: no two rows with the same author and title.\<close>

definition author_title :: "Review \<Rightarrow> nat \<times> nat" where
  "author_title r = (review_author r, review_title r)"

definition one_review_per_author_title :: "store \<Rightarrow> bool" where
  "one_review_per_author_title st = distinct (map author_title (reviews st))"

section \<open>api/views.py and api/serializers.py: the rating of a title\<close>

text \<open>
  \<open>TitleViewSet.queryset\<close> annotates every title with \<open>Avg("reviews__score")\<close>,
  wrapped in an \<open>ExpressionWrapper\<close> whose output field is an \<open>IntegerField\<close>: the
  mean of the scores (SQL's \<open>AVG\<close>, \<open>NULL\<close> for no rows) is converted to an integer
  as Python's \<open>int\<close> does, toward zero. \<open>ReadTitleSerializer\<close> renders the
  annotation through \<open>IntegerField(read_only=True)\<close>, which passes \<open>None\<close> through
  and applies \<open>int\<close> once more.
\<close>

definition Avg :: "int list \<Rightarrow> rat option" where
  "Avg xs = (if xs = [] then None else Some (of_int (sum_list xs) / of_int (int (length xs))))"

definition py_int :: "rat \<Rightarrow> int" where
  "py_int q = (if 0 \<le> q then \<lfloor>q\<rfloor> else \<lceil>q\<rceil>)"

definition reviews_score :: "store \<Rightarrow> Title \<Rightarrow> int list" where
  "reviews_score st t =
     map review_score (filter (\<lambda>r. Some (review_title r) = title_pk t) (reviews st))"

definition annotate_rating :: "store \<Rightarrow> Title \<Rightarrow> int option" where
  "annotate_rating st t = map_option py_int (Avg (reviews_score st t))"

definition ReadTitleSerializer_rating :: "store \<Rightarrow> Title \<Rightarrow> int option" where
  "ReadTitleSerializer_rating st t = map_option (\<lambda>n. py_int (of_int n)) (annotate_rating st t)"

section \<open>Example data\<close>

definition ann :: User where
  "ann = \<lparr>pk = Some 3, username = ''ann'', first_name = [], last_name = [],
          email = ''ann@example.org'', bio = [], is_active = True, role = ''user'',
          is_superuser = False\<rparr>"

definition dune :: Title where
  "dune = \<lparr>title_pk = Some 5, title_name = ''Dune'', title_year = 1965,
           title_description = [], title_category = None\<rparr>"

definition store0 :: store where
  "store0 = \<lparr>users = [ann], categories = [], genres = [], titles = [dune],
     genre_titles = [], reviews = [], comments = [], outbox = []\<rparr>"

definition review1 :: Review where
  "review1 = \<lparr>review_pk = Some 1, review_text = ''fine'', review_title = 5,
     review_author = 3, review_score = 8\<rparr>"

definition review2 :: Review where
  "review2 = \<lparr>review_pk = None, review_text = ''again'', review_title = 5,
     review_author = 3, review_score = 9\<rparr>"

definition review3 :: Review where
  "review3 = \<lparr>review_pk = Some 2, review_text = ''good'', review_title = 5,
     review_author = 4, review_score = 9\<rparr>"

definition review4 :: Review where
  "review4 = \<lparr>review_pk = Some 2, review_text = ''great'', review_title = 5,
     review_author = 4, review_score = 10\<rparr>"

definition fw0 :: framework where
  "fw0 = \<lparr>EmailValidator = (\<lambda>s. CHR ''@'' \<in> set s),
           UnicodeUsernameValidator = (\<lambda>s. CHR '' '' \<notin> set s),
           make_token = (\<lambda>u. ''code-'' @ username u),
           check_token = (\<lambda>u c. c = ''code-'' @ username u)\<rparr>"

definition bob :: User where
  "bob = \<lparr>pk = Some 4, username = ''bob'', first_name = [], last_name = [],
          email = ''bob@example.org'', bio = [], is_active = True, role = ''user'',
          is_superuser = False\<rparr>"

definition films :: Category where
  "films = \<lparr>category_pk = None, category_name = ''Films'', category_slug = []\<rparr>"

definition rock :: Genre where
  "rock = \<lparr>genre_pk = None, genre_name = ''Rock'', genre_slug = []\<rparr>"

definition me_user :: User where
  "me_user = new_User ''me'' ''me@example.org''"

definition store1 :: store where
  "store1 = store0\<lparr>
     genres := [\<lparr>genre_pk = Some 2, genre_name = ''Epic'', genre_slug = ''epic''\<rparr>,
                \<lparr>genre_pk = Some 7, genre_name = ''Saga'', genre_slug = ''saga''\<rparr>],
     genre_titles := [\<lparr>gt_pk = Some 1, gt_title = 5, gt_genre = Some 2\<rparr>,
                      \<lparr>gt_pk = Some 2, gt_title = 5, gt_genre = Some 7\<rparr>]\<rparr>"

section \<open>Theorems: the permission evaluator\<close>

lemma permitted_IsAdminOrReadOnly:
  "permission_classes vs = [IsAdminOrReadOnly] \<Longrightarrow>
   permitted vs lvl req ob =
     Inr (req_method req \<in> set SAFE_METHODS \<or>
          (is_authenticated (user req) \<and>
            (actor_has_role (user req) ADMIN \<or> actor_is_superuser (user req))))"
  by (cases "user req"; cases lvl)
     (auto simp: permitted_def IsAdminOrReadOnly_has_permission_def IsAdmin_has_permission_def
        IsAuthenticated_has_permission_def split: sum.splits bool.splits)

lemma permitted_OwnerAdminModeratorOrReadOnly_list:
  "permission_classes vs = [OwnerAdminModeratorOrReadOnly] \<Longrightarrow>
   permitted vs ListCreate req ob =
     Inr (req_method req \<in> set SAFE_METHODS \<or> is_authenticated (user req))"
  by (auto simp: permitted_def OwnerAdminModeratorOrReadOnly_has_permission_def
        split: sum.splits bool.splits)

lemma permitted_OwnerAdminModeratorOrReadOnly_object:
  "permission_classes vs = [OwnerAdminModeratorOrReadOnly] \<Longrightarrow> obj_author ob = Inr a \<Longrightarrow>
   permitted vs ObjectLevel req ob =
     Inr (req_method req \<in> set SAFE_METHODS \<or> author_is a (user req) \<or>
          actor_has_role (user req) MODERATOR \<or> actor_has_role (user req) ADMIN \<or>
          actor_is_superuser (user req))"
  by (cases "user req")
     (auto simp: permitted_def OwnerAdminModeratorOrReadOnly_has_permission_def
        OwnerAdminModeratorOrReadOnly_has_object_permission_def
        split: sum.splits bool.splits)

text \<open>
  C1. On the five content resources the evaluator never raises, and for every request
  (any method, any actor), either level and any object of the view set it answers what
  the table of section 4.1 says: safe methods are allowed to all; a write on Category,
  Genre or Title is allowed exactly to an authenticated admin or superuser; a list-level
  write on Review or Comment is allowed exactly to an authenticated actor; an object-level
  write on Review or Comment is allowed exactly to the author, a moderator, an admin or a
  superuser.
\<close>

theorem permission_table:
  "permitted CategoryViewSet lvl req (CategoryObj c) =
     Inr (table_4_1 CategoryR lvl (req_method req \<in> set SAFE_METHODS) (user req) own)
   \<and> permitted GenreViewSet lvl req (GenreObj g) =
     Inr (table_4_1 GenreR lvl (req_method req \<in> set SAFE_METHODS) (user req) own)
   \<and> permitted TitleViewSet lvl req (TitleObj t) =
     Inr (table_4_1 TitleR lvl (req_method req \<in> set SAFE_METHODS) (user req) own)
   \<and> permitted ReviewViewSet lvl req (ReviewObj r) =
     Inr (table_4_1 ReviewR lvl (req_method req \<in> set SAFE_METHODS) (user req)
            (author_is (review_author r) (user req)))
   \<and> permitted CommentViewSet lvl req (CommentObj k) =
     Inr (table_4_1 CommentR lvl (req_method req \<in> set SAFE_METHODS) (user req)
            (author_is (comment_author k) (user req)))"
proof -
  have adm: "actor_has_role a ''admin'' = actor_has_role a ADMIN" for a
    by (simp add: ADMIN_def)
  have mod: "actor_has_role a ''moderator'' = actor_has_role a MODERATOR" for a
    by (simp add: MODERATOR_def)
  have cgt: "permitted vs lvl req ob =
      Inr (table_4_1 res lvl (req_method req \<in> set SAFE_METHODS) (user req) own)"
    if "permission_classes vs = [IsAdminOrReadOnly]" "res \<in> {CategoryR, GenreR, TitleR}"
    for vs ob res
    using that
    by (cases "req_method req \<in> set SAFE_METHODS")
       (auto simp: permitted_IsAdminOrReadOnly adm)
  have rc: "permitted vs lvl req ob =
      Inr (table_4_1 res lvl (req_method req \<in> set SAFE_METHODS) (user req) (author_is a (user req)))"
    if "permission_classes vs = [OwnerAdminModeratorOrReadOnly]" "obj_author ob = Inr a"
       "res \<in> {ReviewR, CommentR}"
    for vs ob res a
    using that
    by (cases "req_method req \<in> set SAFE_METHODS"; cases lvl)
       (auto simp: permitted_OwnerAdminModeratorOrReadOnly_list
          permitted_OwnerAdminModeratorOrReadOnly_object adm mod)
  show ?thesis
    by (intro conjI) (simp_all add: cgt rc)
qed

theorem permission_table_witness:
  "permitted ReviewViewSet ObjectLevel
     \<lparr>req_method = ''PATCH'',
      user = Authenticated \<lparr>pk = Some 7, username = ''bob'', first_name = [], last_name = [],
        email = ''bob@example.org'', bio = [], is_active = True, role = ''user'',
        is_superuser = False\<rparr>\<rparr>
     (ReviewObj \<lparr>review_pk = Some 1, review_text = ''fine'', review_title = 5,
        review_author = 3, review_score = 8\<rparr>) = Inr False
   \<and> permitted CommentViewSet ObjectLevel
     \<lparr>req_method = ''DELETE'',
      user = Authenticated \<lparr>pk = Some 7, username = ''bob'', first_name = [], last_name = [],
        email = ''bob@example.org'', bio = [], is_active = True, role = ''user'',
        is_superuser = False\<rparr>\<rparr>
     (CommentObj \<lparr>comment_pk = Some 4, comment_text = ''yes'', comment_review = 1,
        comment_author = 7\<rparr>) = Inr True
   \<and> permitted TitleViewSet ListCreate \<lparr>req_method = ''POST'', user = AnonymousUser\<rparr>
     (TitleObj \<lparr>title_pk = None, title_name = ''Dune'', title_year = 1965,
        title_description = [], title_category = None\<rparr>) = Inr False"
  using permission_table [where lvl = ObjectLevel and r = "\<lparr>review_pk = Some 1,
      review_text = ''fine'', review_title = 5, review_author = 3, review_score = 8\<rparr>"
    and req = "\<lparr>req_method = ''PATCH'',
      user = Authenticated \<lparr>pk = Some 7, username = ''bob'', first_name = [], last_name = [],
        email = ''bob@example.org'', bio = [], is_active = True, role = ''user'',
        is_superuser = False\<rparr>\<rparr>"]
    permission_table [where lvl = ObjectLevel and k = "\<lparr>comment_pk = Some 4,
      comment_text = ''yes'', comment_review = 1, comment_author = 7\<rparr>"
    and req = "\<lparr>req_method = ''DELETE'',
      user = Authenticated \<lparr>pk = Some 7, username = ''bob'', first_name = [], last_name = [],
        email = ''bob@example.org'', bio = [], is_active = True, role = ''user'',
        is_superuser = False\<rparr>\<rparr>"]
    permission_table [where lvl = ListCreate and t = "\<lparr>title_pk = None,
      title_name = ''Dune'', title_year = 1965, title_description = [],
      title_category = None\<rparr>"
    and req = "\<lparr>req_method = ''POST'', user = AnonymousUser\<rparr>"]
  by (simp add: SAFE_METHODS_def)

section \<open>Theorems: one review per author and title\<close>

lemma Review_objects_create_duplicate:
  "author_title r \<in> set (map author_title (reviews st)) \<Longrightarrow>
   Review_objects_create st r = (Inl (IntegrityError ''author_title_only_on_review''), st)"
  by (simp add: Review_objects_create_def review_violation_def author_title_def)

lemma Review_objects_create_invariant:
  "one_review_per_author_title st \<Longrightarrow>
   one_review_per_author_title (snd (Review_objects_create st r))"
  by (auto simp: Review_objects_create_def review_violation_def author_title_def
        one_review_per_author_title_def Let_def split: option.splits)

lemma Review_objects_create_reviews:
  "Review_objects_create st r = (Inr r', st') \<Longrightarrow>
   author_title r \<in> set (map author_title (reviews st'))"
  by (auto simp: Review_objects_create_def author_title_def Let_def split: option.splits)

lemma perform_create_reviews:
  "perform_create st \<lparr>req_method = m, user = Authenticated u\<rparr> t d = (Inr r, st') \<Longrightarrow>
   \<exists>a. pk u = Some a \<and> (a, t) \<in> set (map author_title (reviews st'))"
  by (auto simp: perform_create_def author_title_def split: sum.splits option.splits
        dest!: Review_objects_create_reviews)

lemma perform_create_invariant:
  "one_review_per_author_title st \<Longrightarrow> perform_create st req t d = (x, st') \<Longrightarrow>
   one_review_per_author_title st'"
  using Review_objects_create_invariant [of st]
  by (auto simp: perform_create_def split: sum.splits option.splits actor.splits)
     (metis snd_conv)+

lemma ReviewViewSet_create_invariant:
  "one_review_per_author_title st \<Longrightarrow>
   one_review_per_author_title (snd (ReviewViewSet_create st a t p))"
  by (auto simp: ReviewViewSet_create_def Let_def split: sum.splits bool.splits prod.splits
        dest: perform_create_invariant)

lemma ReviewViewSet_create_success:
  "ReviewViewSet_create st a t p = (Inr resp, st') \<Longrightarrow>
   \<exists>u k. a = Authenticated u \<and> pk u = Some k \<and> (k, t) \<in> set (map author_title (reviews st'))"
  apply (cases a)
   apply (auto simp: ReviewViewSet_create_def Let_def OwnerAdminModeratorOrReadOnly_has_permission_def
      SAFE_METHODS_def ReviewSerializer_validate_def
      split: sum.splits bool.splits prod.splits if_splits dest!: perform_create_reviews)
  done

lemma ReviewViewSet_create_duplicate:
  assumes "pk u = Some k" "(k, t) \<in> set (map author_title (reviews st))"
  shows "snd (ReviewViewSet_create st (Authenticated u) t p) = st"
    and "\<exists>d. fst (ReviewViewSet_create st (Authenticated u) t p) = Inl (ValidationError d)"
    and "ReviewSerializer_fields p = Inr d \<Longrightarrow>
         ReviewViewSet_create st (Authenticated u) t p = (Inl (ValidationError ReviewOnlyOnce), st)"
proof -
  from assms have ex: "filter (\<lambda>x. review_title x = t \<and> Some (review_author x) = pk u) (reviews st) \<noteq> []"
    by (auto simp: author_title_def filter_empty_conv)
  note perm = OwnerAdminModeratorOrReadOnly_has_permission_def
  show "snd (ReviewViewSet_create st (Authenticated u) t p) = st"
    using ex by (simp add: ReviewViewSet_create_def Let_def perm ReviewSerializer_validate_def split: sum.splits)
  show "\<exists>d. fst (ReviewViewSet_create st (Authenticated u) t p) = Inl (ValidationError d)"
    using ex
    by (auto simp: ReviewViewSet_create_def perm ReviewSerializer_validate_def ReviewSerializer_fields_def
        Let_def split: sum.splits option.splits prod.splits)
  show "ReviewViewSet_create st (Authenticated u) t p = (Inl (ValidationError ReviewOnlyOnce), st)"
    if "ReviewSerializer_fields p = Inr d"
    using ex that by (simp add: ReviewViewSet_create_def Let_def perm ReviewSerializer_validate_def)
qed


lemma strip_fine: "strip ''fine'' = ''fine''" "strip ''again'' = ''again''"
  by (simp_all add: strip_def isspace_def)

lemma perm_ann: "check_permissions (permission_classes ReviewViewSet)
    \<lparr>req_method = ''POST'', user = Authenticated ann\<rparr> = Inr True"
  by (simp add: OwnerAdminModeratorOrReadOnly_has_permission_def)

lemma fields1: "ReviewSerializer_fields \<lparr>rp_text = Some ''fine'', rp_score = Some 8\<rparr> = Inr (''fine'', 8)"
  by (simp add: ReviewSerializer_fields_def CharField_def strip_fine)

lemma validate1: "ReviewSerializer_validate store0 \<lparr>req_method = ''POST'', user = Authenticated ann\<rparr> 5 d = Inr d"
  by (simp add: ReviewSerializer_validate_def store0_def)

lemma create1: "Review_objects_create store0 \<lparr>review_pk = None, review_text = ''fine'', review_title = 5,
                       review_author = 3, review_score = 8\<rparr> = (Inr review1, store0\<lparr>reviews := [review1]\<rparr>)"
  by (simp add: Review_objects_create_def Let_def review_violation_def store0_def dune_def ann_def next_pk_def review1_def)

lemma perform1: "perform_create store0 \<lparr>req_method = ''POST'', user = Authenticated ann\<rparr> 5 (''fine'', 8)
   = (Inr review1, store0\<lparr>reviews := [review1]\<rparr>)"
proof -
  have "get_object_or_404 (\<lambda>t. title_pk t = Some 5) (titles store0) = Inr dune"
    by (simp add: get_object_or_404_def objects_get_def store0_def dune_def)
  moreover have "pk ann = Some 3" by (simp add: ann_def)
  ultimately show ?thesis
    by (simp add: perform_create_def create1)
qed

lemma first_create:
  "ReviewViewSet_create store0 (Authenticated ann) 5 \<lparr>rp_text = Some ''fine'', rp_score = Some 8\<rparr>
     = (Inr \<lparr>status = 201, body = ReviewBody review1\<rparr>, store0\<lparr>reviews := [review1]\<rparr>)"
  by (simp only: ReviewViewSet_create_def Let_def perm_ann fields1 validate1 perform1
        sum.case bool.case prod.case)


lemma fields2: "ReviewSerializer_fields \<lparr>rp_text = Some ''again'', rp_score = Some 9\<rparr> = Inr (''again'', 9)"
  by (simp add: ReviewSerializer_fields_def CharField_def strip_fine)

lemma inv0: "one_review_per_author_title store0"
  by (simp add: one_review_per_author_title_def store0_def)

lemma dup2: "author_title review2 \<in> set (map author_title (reviews (store0\<lparr>reviews := [review1]\<rparr>)))"
  by (simp add: author_title_def review1_def review2_def)

text \<open>
  C2. No two reviews share an author and a title: both the create action and the raw
  insert keep the invariant. After a create by an actor for a title has succeeded, every
  further create by that actor for that title fails with a validation error and changes
  nothing, and when its payload passes the field checks the error is the one
  \<open>ReviewSerializer.validate\<close> raises for a second review. The table itself refuses a
  row whose author and title a stored row already has, with an \<open>IntegrityError\<close> of the
  constraint \<open>author_title_only_on_review\<close>, whatever the serializer did.
\<close>

theorem one_review_per_author_and_title:
  "(one_review_per_author_title st \<longrightarrow>
      one_review_per_author_title (snd (ReviewViewSet_create st a t p)))
   \<and> (one_review_per_author_title st \<longrightarrow>
      one_review_per_author_title (snd (Review_objects_create st r)))
   \<and> (ReviewViewSet_create st a t p = (Inr resp, st') \<longrightarrow>
        snd (ReviewViewSet_create st' a t p') = st'
        \<and> (\<exists>d. fst (ReviewViewSet_create st' a t p') = Inl (ValidationError d))
        \<and> (\<forall>d. ReviewSerializer_fields p' = Inr d \<longrightarrow>
              fst (ReviewViewSet_create st' a t p') = Inl (ValidationError ReviewOnlyOnce)))
   \<and> (author_title r \<in> set (map author_title (reviews st)) \<longrightarrow>
        Review_objects_create st r = (Inl (IntegrityError ''author_title_only_on_review''), st))"
proof (intro conjI impI)
  assume "one_review_per_author_title st"
  then show "one_review_per_author_title (snd (ReviewViewSet_create st a t p))"
    by (rule ReviewViewSet_create_invariant)
next
  assume "one_review_per_author_title st"
  then show "one_review_per_author_title (snd (Review_objects_create st r))"
    by (rule Review_objects_create_invariant)
next
  assume "author_title r \<in> set (map author_title (reviews st))"
  then show "Review_objects_create st r = (Inl (IntegrityError ''author_title_only_on_review''), st)"
    by (rule Review_objects_create_duplicate)
next
  assume first: "ReviewViewSet_create st a t p = (Inr resp, st')"
  then obtain u k where a: "a = Authenticated u" and k: "pk u = Some k"
    and dup: "(k, t) \<in> set (map author_title (reviews st'))"
    using ReviewViewSet_create_success by blast
  show "snd (ReviewViewSet_create st' a t p') = st'"
    unfolding a using k dup by (rule ReviewViewSet_create_duplicate(1))
  show "\<exists>d. fst (ReviewViewSet_create st' a t p') = Inl (ValidationError d)"
    unfolding a using k dup by (rule ReviewViewSet_create_duplicate(2))
  show "\<forall>d. ReviewSerializer_fields p' = Inr d \<longrightarrow>
          fst (ReviewViewSet_create st' a t p') = Inl (ValidationError ReviewOnlyOnce)"
    unfolding a using ReviewViewSet_create_duplicate(3) [OF k dup] by simp
qed

theorem one_review_per_author_and_title_witness:
  "ReviewViewSet_create store0 (Authenticated ann) 5 \<lparr>rp_text = Some ''fine'', rp_score = Some 8\<rparr>
     = (Inr \<lparr>status = 201, body = ReviewBody review1\<rparr>, store0\<lparr>reviews := [review1]\<rparr>)
   \<and> ReviewViewSet_create (store0\<lparr>reviews := [review1]\<rparr>) (Authenticated ann) 5
        \<lparr>rp_text = Some ''again'', rp_score = Some 9\<rparr>
     = (Inl (ValidationError ReviewOnlyOnce), store0\<lparr>reviews := [review1]\<rparr>)
   \<and> Review_objects_create (store0\<lparr>reviews := [review1]\<rparr>) review2
     = (Inl (IntegrityError ''author_title_only_on_review''), store0\<lparr>reviews := [review1]\<rparr>)
   \<and> one_review_per_author_title (store0\<lparr>reviews := [review1]\<rparr>)"
proof -
  note inst1 = one_review_per_author_and_title [of store0 "Authenticated ann" 5
      "\<lparr>rp_text = Some ''fine'', rp_score = Some 8\<rparr>" review2
      "\<lparr>status = 201, body = ReviewBody review1\<rparr>"
      "store0\<lparr>reviews := [review1]\<rparr>" "\<lparr>rp_text = Some ''again'', rp_score = Some 9\<rparr>"]
  note inst2 = one_review_per_author_and_title [of "store0\<lparr>reviews := [review1]\<rparr>" _ _ _ review2]
  have inv: "one_review_per_author_title (store0\<lparr>reviews := [review1]\<rparr>)"
    using inst1 [THEN conjunct1, rule_format, OF inv0] by (simp add: first_create)
  have second: "snd (ReviewViewSet_create (store0\<lparr>reviews := [review1]\<rparr>) (Authenticated ann) 5
        \<lparr>rp_text = Some ''again'', rp_score = Some 9\<rparr>) = store0\<lparr>reviews := [review1]\<rparr>"
    "fst (ReviewViewSet_create (store0\<lparr>reviews := [review1]\<rparr>) (Authenticated ann) 5
        \<lparr>rp_text = Some ''again'', rp_score = Some 9\<rparr>) = Inl (ValidationError ReviewOnlyOnce)"
    using inst1 [THEN conjunct2, THEN conjunct2, THEN conjunct1, rule_format, OF first_create] fields2
    by blast+
  have storage: "Review_objects_create (store0\<lparr>reviews := [review1]\<rparr>) review2
     = (Inl (IntegrityError ''author_title_only_on_review''), store0\<lparr>reviews := [review1]\<rparr>)"
    using inst2 [THEN conjunct2, THEN conjunct2, THEN conjunct2, rule_format, OF dup2] .
  show ?thesis
    using first_create second storage inv by (simp only: prod_eq_iff fst_conv snd_conv simp_thms)
qed

section \<open>Theorems: the rating of a title\<close>

lemma py_int_divide:
  "0 < b \<Longrightarrow> py_int (of_int a / of_int b) = sgn a * (\<bar>a\<bar> div b)"
proof (cases "0 \<le> a")
  case True
  assume "0 < b"
  with True have "(0::rat) \<le> of_int a / of_int b" by simp
  then show ?thesis
    using True by (simp add: py_int_def floor_divide_of_int_eq sgn_if)
next
  case False
  assume b: "0 < b"
  with False have neg: "\<not> (0::rat) \<le> of_int a / of_int b"
    by (simp add: divide_less_0_iff not_le)
  have "\<lceil>(of_int a / of_int b :: rat)\<rceil> = - \<lfloor>(of_int (- a) / of_int b :: rat)\<rfloor>"
    by (simp add: ceiling_def)
  also have "\<dots> = - ((- a) div b)"
    by (simp only: floor_divide_of_int_eq)
  finally show ?thesis
    using False neg by (simp add: py_int_def sgn_if)
qed

lemma py_int_divide_nat:
  "0 < n \<Longrightarrow> py_int (of_int a / of_nat n) = sgn a * (\<bar>a\<bar> div int n)"
  using py_int_divide [of "int n" a] by simp

lemma py_int_of_int: "py_int (of_int k) = k"
  by (simp add: py_int_def)

lemma ReadTitleSerializer_rating_eq:
  "ReadTitleSerializer_rating st t = map_option py_int (Avg (reviews_score st t))"
  by (simp add: ReadTitleSerializer_rating_def annotate_rating_def option.map_comp comp_def
        py_int_of_int)

lemma scores_8_9: "reviews_score (store0\<lparr>reviews := [review1, review3]\<rparr>) dune = [8, 9]"
  by (simp add: reviews_score_def review1_def review3_def dune_def)

lemma scores_8_10: "reviews_score (store0\<lparr>reviews := [review1, review4]\<rparr>) dune = [8, 10]"
  by (simp add: reviews_score_def review1_def review4_def dune_def)

lemma scores_none: "reviews_score store0 dune = []"
  by (simp add: reviews_score_def store0_def)

text \<open>
  C3, as the code has it. A title without reviews has the rating \<open>None\<close>, and only such
  a title. A title with reviews has the integer part of the mean of their scores (the
  mean rounded toward zero): the sum divided by the count in integer division, with the
  sign of the sum. Where the count divides the sum, that is the mean itself.
\<close>

theorem rating_is_truncated_mean:
  "(ReadTitleSerializer_rating st t = None) = (reviews_score st t = [])
   \<and> (reviews_score st t \<noteq> [] \<longrightarrow>
        ReadTitleSerializer_rating st t =
          Some (sgn (sum_list (reviews_score st t))
                * (\<bar>sum_list (reviews_score st t)\<bar> div int (length (reviews_score st t)))))
   \<and> (reviews_score st t \<noteq> [] \<and> int (length (reviews_score st t)) dvd sum_list (reviews_score st t)
        \<longrightarrow> map_option of_int (ReadTitleSerializer_rating st t) = Avg (reviews_score st t))"
proof (intro conjI impI)
  show "(ReadTitleSerializer_rating st t = None) = (reviews_score st t = [])"
    by (simp add: ReadTitleSerializer_rating_eq Avg_def)
  show "ReadTitleSerializer_rating st t =
          Some (sgn (sum_list (reviews_score st t))
                * (\<bar>sum_list (reviews_score st t)\<bar> div int (length (reviews_score st t))))"
    if "reviews_score st t \<noteq> []"
    using that
    by (simp add: ReadTitleSerializer_rating_eq Avg_def py_int_divide_nat)
  show "map_option of_int (ReadTitleSerializer_rating st t) = Avg (reviews_score st t)"
    if "reviews_score st t \<noteq> [] \<and> int (length (reviews_score st t)) dvd sum_list (reviews_score st t)"
  proof -
    from that obtain k where k: "sum_list (reviews_score st t) = int (length (reviews_score st t)) * k"
      by (auto simp: dvd_def)
    from that have n: "0 < length (reviews_score st t)" by simp
    have "(of_int (sum_list (reviews_score st t)) / of_nat (length (reviews_score st t)) :: rat)
        = of_int k"
      using n by (simp add: k)
    then show ?thesis
      using that
      by (simp add: ReadTitleSerializer_rating_eq Avg_def py_int_of_int)
  qed
qed

theorem rating_is_truncated_mean_witness:
  "ReadTitleSerializer_rating (store0\<lparr>reviews := [review1, review4]\<rparr>) dune = Some 9
   \<and> ReadTitleSerializer_rating (store0\<lparr>reviews := [review1, review3]\<rparr>) dune = Some 8
   \<and> ReadTitleSerializer_rating store0 dune = None"
  using rating_is_truncated_mean [of "store0\<lparr>reviews := [review1, review4]\<rparr>" dune]
    rating_is_truncated_mean [of "store0\<lparr>reviews := [review1, review3]\<rparr>" dune]
    rating_is_truncated_mean [of store0 dune]
  by (simp add: scores_8_9 scores_8_10 scores_none)

theorem rating_not_the_mean:
  "reviews_score (store0\<lparr>reviews := [review1, review3]\<rparr>) dune = [8, 9]
   \<and> Avg [8, 9] = Some (17 / 2)
   \<and> ReadTitleSerializer_rating (store0\<lparr>reviews := [review1, review3]\<rparr>) dune = Some 8
   \<and> map_option of_int (ReadTitleSerializer_rating (store0\<lparr>reviews := [review1, review3]\<rparr>) dune)
       \<noteq> Avg [8, 9]"
proof -
  have a: "Avg [8, 9] = Some (17 / 2)"
    by (simp add: Avg_def)
  have f: "\<lfloor>17 / 2 :: rat\<rfloor> = 8"
    by (simp add: floor_eq_iff)
  have r: "ReadTitleSerializer_rating (store0\<lparr>reviews := [review1, review3]\<rparr>) dune = Some 8"
    by (simp add: ReadTitleSerializer_rating_eq scores_8_9 a py_int_def f)
  show ?thesis
    by (simp add: scores_8_9 a r)
qed

section \<open>Theorems: the self-profile endpoint\<close>

lemma replace_row_roles:
  "\<forall>x \<in> set xs. pk x = Some k \<longrightarrow> role x = role u' \<Longrightarrow> pk u' = Some k \<Longrightarrow>
   map (\<lambda>x. (pk x, role x)) (map (\<lambda>x. if pk x = Some k then u' else x) xs)
     = map (\<lambda>x. (pk x, role x)) xs"
  by (induction xs) auto

lemma distinct_pk_role:
  "distinct (map pk xs) \<Longrightarrow> u \<in> set xs \<Longrightarrow> x \<in> set xs \<Longrightarrow> pk x = pk u \<Longrightarrow> x = u"
  by (metis distinct_map inj_on_def)

lemma Model_save_User_roles:
  assumes "distinct (map pk (users st))" "u \<in> set (users st)" "pk u = Some k"
    "pk u' = Some k" "role u' = role u"
  shows "map (\<lambda>x. (pk x, role x)) (users (snd (Model_save_User False st u')))
       = map (\<lambda>x. (pk x, role x)) (users st)"
proof -
  have mem: "Some k \<in> set (map pk (users st))"
    using assms(2,3) by force
  have rows: "\<forall>x \<in> set (users st). pk x = Some k \<longrightarrow> role x = role u'"
    using distinct_pk_role [OF assms(1,2)] assms(3,5) by auto
  show ?thesis
  proof (cases "user_violation (filter (\<lambda>x. pk x \<noteq> Some k) (users st)) u'")
    case None
    then show ?thesis
      using mem replace_row_roles [OF rows assms(4)]
      by (simp add: Model_save_User_def assms(4))
  next
    case (Some e)
    then show ?thesis
      using mem by (simp add: Model_save_User_def assms(4))
  qed
qed

lemma setattrs_role: "role (setattrs u (vd(''role'' \<mapsto> r, ''partial'' \<mapsto> p))) = r"
  by (simp add: setattrs_def)

lemma setattrs_pk: "pk (setattrs u vd) = pk u"
  by (simp add: setattrs_def)

lemma User_save_roles:
  assumes "distinct (map pk (users st))" "u \<in> set (users st)" "pk u = Some k"
    "pk u' = Some k" "role u' = role u"
  shows "map (\<lambda>x. (pk x, role x)) (users (snd (User_save False st u')))
       = map (\<lambda>x. (pk x, role x)) (users st)"
proof (cases "username u' = ''me''")
  case True
  then show ?thesis by (simp add: User_save_def)
next
  case False
  obtain x st' where m: "Model_save_User False st u' = (x, st')"
    by (cases "Model_save_User False st u'")
  with Model_save_User_roles [OF assms] have
    "map (\<lambda>x. (pk x, role x)) (users st') = map (\<lambda>x. (pk x, role x)) (users st)"
    by simp
  then show ?thesis
    using False m by (cases x) (simp_all add: User_save_def)
qed

lemma UserSerializer_update_roles:
  assumes "distinct (map pk (users st))" "u \<in> set (users st)" "pk u = Some k"
  shows "map (\<lambda>x. (pk x, role x))
           (users (snd (UserSerializer_update st u (vd(''role'' \<mapsto> role u, ''partial'' \<mapsto> p)))))
       = map (\<lambda>x. (pk x, role x)) (users st)"
proof -
  let ?u' = "setattrs u (vd(''role'' \<mapsto> role u, ''partial'' \<mapsto> p))"
  obtain x st' where s: "User_save False st ?u' = (x, st')"
    by (cases "User_save False st ?u'")
  have "map (\<lambda>x. (pk x, role x)) (users (snd (User_save False st ?u')))
       = map (\<lambda>x. (pk x, role x)) (users st)"
    using assms by (intro User_save_roles [where u = u and k = k]) (simp_all add: setattrs_role setattrs_pk)
  then show ?thesis
    using s by (cases x) (auto simp: UserSerializer_update_def)
qed

text \<open>
  C4. Whatever the payload of a request to the self-profile endpoint holds (a \<open>role\<close>
  or not, valid or not) and whatever its method, the stored role of every user, the
  actor's included, is after the request what it was before. The actor is a stored user,
  as the authentication of any request makes it, and primary keys are unique.
\<close>

theorem self_profile_keeps_role:
  assumes "distinct (map pk (users st))" "user req = Authenticated u" "u \<in> set (users st)"
    "pk u = Some k"
  shows "map (\<lambda>x. (pk x, role x)) (users (snd (get_self_user_page fw st req data)))
       = map (\<lambda>x. (pk x, role x)) (users st)"
proof (cases "req_method req = ''GET''")
  case True
  then show ?thesis
    using assms(2) by (simp add: get_self_user_page_def IsAuthenticated_has_permission_def)
next
  case False
  show ?thesis
  proof (cases "UserSerializer_is_valid fw st u data")
    case (Inl e)
    then show ?thesis
      using assms(2) False
      by (simp add: get_self_user_page_def IsAuthenticated_has_permission_def)
  next
    case (Inr vd)
    let ?r = "UserSerializer_update st u (vd(''role'' \<mapsto> role u, ''partial'' \<mapsto> ''True''))"
    obtain x st' where s: "?r = (x, st')"
      by (cases ?r)
    have "map (\<lambda>x. (pk x, role x)) (users (snd ?r)) = map (\<lambda>x. (pk x, role x)) (users st)"
      by (rule UserSerializer_update_roles [OF assms(1,3,4)])
    then show ?thesis
      using assms(2) False Inr s
      by (cases x) (simp_all add: get_self_user_page_def IsAuthenticated_has_permission_def)
  qed
qed

lemma strip_hi: "strip ''hi'' = ''hi''"
  by (simp add: strip_def isspace_def)

lemma valid_patch:
  "UserSerializer_is_valid fw0 store0 ann [''role'' \<mapsto> ''admin'', ''bio'' \<mapsto> ''hi'']
     = Inr [''role'' \<mapsto> ''admin'', ''bio'' \<mapsto> ''hi'']"
  by (auto simp: UserSerializer_is_valid_def Let_def user_fields_def clean_user_field_def
      ROLE_CHOICES_def ADMIN_def CharField_def strip_hi fun_eq_iff)

lemma setattrs_patch:
  "setattrs ann [''bio'' \<mapsto> ''hi'', ''role'' \<mapsto> role ann, ''partial'' \<mapsto> ''True'']
     = ann\<lparr>bio := ''hi''\<rparr>"
  by (simp add: setattrs_def ann_def)

lemma save_patch:
  "User_save False store0 (ann\<lparr>bio := ''hi''\<rparr>)
     = (Inr (None, ann\<lparr>bio := ''hi''\<rparr>), store0\<lparr>users := [ann\<lparr>bio := ''hi''\<rparr>]\<rparr>)"
  by (simp add: User_save_def Model_save_User_def user_violation_def store0_def ann_def)

lemma patch_me:
  "get_self_user_page fw0 store0 \<lparr>req_method = ''PATCH'', user = Authenticated ann\<rparr>
       [''role'' \<mapsto> ''admin'', ''bio'' \<mapsto> ''hi'']
     = (Inr \<lparr>status = 200, body = UserBody (ann\<lparr>bio := ''hi''\<rparr>)\<rparr>,
        store0\<lparr>users := [ann\<lparr>bio := ''hi''\<rparr>]\<rparr>)"
  by (simp add: get_self_user_page_def IsAuthenticated_has_permission_def valid_patch
      UserSerializer_update_def setattrs_patch save_patch)

theorem self_profile_keeps_role_witness:
  "get_self_user_page fw0 store0 \<lparr>req_method = ''PATCH'', user = Authenticated ann\<rparr>
       [''role'' \<mapsto> ''admin'', ''bio'' \<mapsto> ''hi'']
     = (Inr \<lparr>status = 200, body = UserBody (ann\<lparr>bio := ''hi''\<rparr>)\<rparr>,
        store0\<lparr>users := [ann\<lparr>bio := ''hi''\<rparr>]\<rparr>)
   \<and> map (\<lambda>x. (pk x, role x)) (users (store0\<lparr>users := [ann\<lparr>bio := ''hi''\<rparr>]\<rparr>))
       = map (\<lambda>x. (pk x, role x)) (users store0)
   \<and> map role (users store0) = [''user'']"
proof -
  have h: "distinct (map pk (users store0))" "ann \<in> set (users store0)" "pk ann = Some 3"
    by (simp_all add: store0_def ann_def)
  have r: "map role (users store0) = [''user'']"
    by (simp add: store0_def ann_def)
  show ?thesis
    using self_profile_keeps_role [of store0 "\<lparr>req_method = ''PATCH'', user = Authenticated ann\<rparr>"
        ann 3 fw0 "[''role'' \<mapsto> ''admin'', ''bio'' \<mapsto> ''hi'']", OF h(1) _ h(2,3)] r
    by (simp add: patch_me)
qed

section \<open>Theorems: the token exchange\<close>

lemma filter_unique:
  "distinct (map f xs) \<Longrightarrow> u \<in> set xs \<Longrightarrow> filter (\<lambda>x. f x = f u) xs = [u]"
proof (induction xs)
  case Nil
  then show ?case by simp
next
  case (Cons a xs)
  show ?case
  proof (cases "a = u")
    case True
    with Cons.prems have "filter (\<lambda>x. f x = f u) xs = []"
      by (auto simp: filter_empty_conv image_iff)
    then show ?thesis using True by simp
  next
    case False
    with Cons.prems have "u \<in> set xs" "f a \<noteq> f u"
      by auto
    then show ?thesis
      using Cons.IH Cons.prems by simp
  qed
qed

lemma get_object_or_404_absent:
  "filter P rows = [] \<Longrightarrow> get_object_or_404 P rows = Inl Http404"
  by (simp add: get_object_or_404_def objects_get_def)

lemma get_object_or_404_unique:
  "filter P rows = [u] \<Longrightarrow> get_object_or_404 P rows = Inr u"
  by (simp add: get_object_or_404_def objects_get_def)

lemma CharField_Some_iff:
  "(\<exists>v. CharField False d = Some v) =
     (\<exists>s. d = Some s \<and> strip s \<noteq> [] \<and> CHR 0x00 \<notin> set (strip s))"
  by (cases d) (auto simp: CharField_def)

lemma TokenSerializer_is_valid_iff:
  "(TokenSerializer_is_valid data = Inr ()) =
     (\<exists>n c. data ''username'' = Some n \<and> data ''confirmation_code'' = Some c
        \<and> strip n \<noteq> [] \<and> CHR 0x00 \<notin> set (strip n)
        \<and> strip c \<noteq> [] \<and> CHR 0x00 \<notin> set (strip c))"
proof (cases "CharField False (data ''username'')")
  case None
  then show ?thesis
    using CharField_Some_iff [of "data ''username''"]
    by (auto simp: TokenSerializer_is_valid_def)
next
  case u: (Some u)
  show ?thesis
  proof (cases "CharField False (data ''confirmation_code'')")
    case None
    then show ?thesis
      using u CharField_Some_iff [of "data ''confirmation_code''"]
      by (auto simp: TokenSerializer_is_valid_def)
  next
    case (Some c)
    then show ?thesis
      using u CharField_Some_iff [of "data ''username''"]
        CharField_Some_iff [of "data ''confirmation_code''"]
      by (auto simp: TokenSerializer_is_valid_def)
  qed
qed

lemma TokenSerializer_is_valid_cases:
  "TokenSerializer_is_valid data = Inr () \<or>
   (\<exists>d. TokenSerializer_is_valid data = Inl (ValidationError d))"
  by (cases "CharField False (data ''username'')";
      cases "CharField False (data ''confirmation_code'')")
     (simp_all add: TokenSerializer_is_valid_def)

lemma token_invalid:
  "TokenSerializer_is_valid data \<noteq> Inr () \<Longrightarrow>
   \<exists>d. token fw st data = Inr \<lparr>status = 400, body = ErrorsBody d\<rparr>"
  using TokenSerializer_is_valid_cases [of data] by (auto simp: token_def)

text \<open>
  C5, as the code has it. For a request whose \<open>username\<close> and \<open>confirmation_code\<close>
  are strings that pass the field checks of the serializer (present, not blank once
  stripped, no NUL character): when no user has that username the view raises the
  not-found error; when a user has it (usernames being unique) and the code does not
  check against that user, it raises the validation error of the wrong confirmation
  code; when the code checks, it answers 200 with that username and an access token
  whose identity claim \<open>user_id\<close> is the primary key of the user of that name. A
  request that fails the field checks is answered 400 with the field errors, whether a
  user of that name exists or not.
\<close>

theorem token_exchange:
  "(TokenSerializer_is_valid data = Inr () \<and> data ''username'' = Some name
      \<and> data ''confirmation_code'' = Some code \<longrightarrow>
      (name \<notin> set (map username (users st)) \<longrightarrow> token fw st data = Inl Http404)
      \<and> (distinct (map username (users st)) \<and> u \<in> set (users st) \<and> username u = name \<longrightarrow>
           (\<not> check_token fw u code \<longrightarrow>
              token fw st data = Inl (ValidationError WrongConfirmationCode))
         \<and> (check_token fw u code \<longrightarrow>
              (\<exists>tok. token fw st data = Inr \<lparr>status = 200, body = TokenBody name tok\<rparr>
                 \<and> token_type tok = ''access'' \<and> user_id tok = pk u))))
   \<and> (TokenSerializer_is_valid data \<noteq> Inr () \<longrightarrow>
        (\<exists>d. token fw st data = Inr \<lparr>status = 400, body = ErrorsBody d\<rparr>))"
proof (intro conjI impI)
  assume "TokenSerializer_is_valid data \<noteq> Inr ()"
  then show "\<exists>d. token fw st data = Inr \<lparr>status = 400, body = ErrorsBody d\<rparr>"
    by (rule token_invalid)
next
  assume a: "TokenSerializer_is_valid data = Inr () \<and> data ''username'' = Some name
      \<and> data ''confirmation_code'' = Some code"
  {
    assume "name \<notin> set (map username (users st))"
    then have "filter (\<lambda>x. username x = name) (users st) = []"
      by (auto simp: filter_empty_conv)
    then show "token fw st data = Inl Http404"
      using a by (simp add: token_def get_object_or_404_absent)
  }
  {
    assume "distinct (map username (users st)) \<and> u \<in> set (users st) \<and> username u = name"
    then have found: "get_object_or_404 (\<lambda>x. username x = name) (users st) = Inr u"
      using filter_unique [of username "users st" u]
      by (auto intro: get_object_or_404_unique)
    {
      assume "\<not> check_token fw u code"
      then show "token fw st data = Inl (ValidationError WrongConfirmationCode)"
        using a found by (simp add: token_def)
    }
    {
      assume "check_token fw u code"
      then have "token fw st data =
          Inr \<lparr>status = 200, body = TokenBody name (AccessToken_for_user u)\<rparr>"
        using a found by (simp add: token_def)
      then show "\<exists>tok. token fw st data = Inr \<lparr>status = 200, body = TokenBody name tok\<rparr>
                 \<and> token_type tok = ''access'' \<and> user_id tok = pk u"
        by (simp add: AccessToken_for_user_def)
    }
  }
qed

lemma strip_words:
  "strip ''ghost'' = ''ghost''" "strip ''ann'' = ''ann''" "strip ''code-ann'' = ''code-ann''"
  "strip ''code-bob'' = ''code-bob''" "strip [] = []"
  by (simp_all add: strip_def isspace_def)

lemma token_valid_examples:
  "TokenSerializer_is_valid [''username'' \<mapsto> ''ghost'', ''confirmation_code'' \<mapsto> ''code-ann''] = Inr ()"
  "TokenSerializer_is_valid [''username'' \<mapsto> ''ann'', ''confirmation_code'' \<mapsto> ''code-bob''] = Inr ()"
  "TokenSerializer_is_valid [''username'' \<mapsto> ''ann'', ''confirmation_code'' \<mapsto> ''code-ann''] = Inr ()"
  by (simp_all add: TokenSerializer_is_valid_iff strip_words)

lemma token_nul_username:
  "token fw0 store0 [''username'' \<mapsto> ''gh'' @ [CHR 0x00] @ ''ost'',
                     ''confirmation_code'' \<mapsto> ''code-ann'']
     = Inr \<lparr>status = 400, body = ErrorsBody (FieldErrors [''username''])\<rparr>"
proof -
  have "strip (''gh'' @ [CHR 0x00] @ ''ost'') = ''gh'' @ [CHR 0x00] @ ''ost''"
    by (simp add: strip_def isspace_def)
  then have "TokenSerializer_is_valid [''username'' \<mapsto> ''gh'' @ [CHR 0x00] @ ''ost'',
      ''confirmation_code'' \<mapsto> ''code-ann'']
      = Inl (ValidationError (FieldErrors [''username'']))"
    by (simp add: TokenSerializer_is_valid_def CharField_def strip_words)
  then show ?thesis by (simp add: token_def)
qed

theorem token_exchange_witness:
  "token fw0 store0 [''username'' \<mapsto> ''ghost'', ''confirmation_code'' \<mapsto> ''code-ann''] = Inl Http404
   \<and> token fw0 store0 [''username'' \<mapsto> ''ann'', ''confirmation_code'' \<mapsto> ''code-bob'']
       = Inl (ValidationError WrongConfirmationCode)
   \<and> token fw0 store0 [''username'' \<mapsto> ''ann'', ''confirmation_code'' \<mapsto> ''code-ann'']
       = Inr \<lparr>status = 200,
              body = TokenBody ''ann'' \<lparr>token_type = ''access'', user_id = Some 3\<rparr>\<rparr>"
proof -
  have s: "distinct (map username (users store0))" "ann \<in> set (users store0)"
    "username ann = ''ann''" "''ghost'' \<notin> set (map username (users store0))" "pk ann = Some 3"
    by (simp_all add: store0_def ann_def)
  have c: "check_token fw0 ann ''code-ann''" "\<not> check_token fw0 ann ''code-bob''"
    by (simp_all add: fw0_def ann_def)
  have t1: "token fw0 store0 [''username'' \<mapsto> ''ghost'', ''confirmation_code'' \<mapsto> ''code-ann'']
      = Inl Http404"
    using token_exchange [of "[''username'' \<mapsto> ''ghost'', ''confirmation_code'' \<mapsto> ''code-ann'']"
        "''ghost''" "''code-ann''" store0 fw0 ann] s
    by (simp add: token_valid_examples)
  have t2: "token fw0 store0 [''username'' \<mapsto> ''ann'', ''confirmation_code'' \<mapsto> ''code-bob'']
       = Inl (ValidationError WrongConfirmationCode)"
    using token_exchange [of "[''username'' \<mapsto> ''ann'', ''confirmation_code'' \<mapsto> ''code-bob'']"
        "''ann''" "''code-bob''" store0 fw0 ann] s c
    by (simp add: token_valid_examples)
  have "\<exists>tok. token fw0 store0 [''username'' \<mapsto> ''ann'', ''confirmation_code'' \<mapsto> ''code-ann'']
          = Inr \<lparr>status = 200, body = TokenBody ''ann'' tok\<rparr>
        \<and> token_type tok = ''access'' \<and> user_id tok = pk ann"
    using token_exchange [of "[''username'' \<mapsto> ''ann'', ''confirmation_code'' \<mapsto> ''code-ann'']"
        "''ann''" "''code-ann''" store0 fw0 ann] s c
    by (simp add: token_valid_examples)
  then obtain tok where "token fw0 store0 [''username'' \<mapsto> ''ann'', ''confirmation_code'' \<mapsto> ''code-ann'']
          = Inr \<lparr>status = 200, body = TokenBody ''ann'' tok\<rparr>"
      "token_type tok = ''access''" "user_id tok = Some 3"
    using s(5) by auto
  then have t3: "token fw0 store0 [''username'' \<mapsto> ''ann'', ''confirmation_code'' \<mapsto> ''code-ann'']
       = Inr \<lparr>status = 200,
              body = TokenBody ''ann'' \<lparr>token_type = ''access'', user_id = Some 3\<rparr>\<rparr>"
    by (cases tok) simp
  show ?thesis
    using t1 t2 t3 by simp
qed

theorem token_blank_code_unknown_user:
  "''ghost'' \<notin> set (map username (users store0))
   \<and> token fw0 store0 [''username'' \<mapsto> ''ghost'', ''confirmation_code'' \<mapsto> []]
       = Inr \<lparr>status = 400, body = ErrorsBody (FieldErrors [''confirmation_code''])\<rparr>
   \<and> token fw0 store0 [''username'' \<mapsto> ''ghost'', ''confirmation_code'' \<mapsto> []] \<noteq> Inl Http404"
proof -
  have "TokenSerializer_is_valid [''username'' \<mapsto> ''ghost'', ''confirmation_code'' \<mapsto> []]
      = Inl (ValidationError (FieldErrors [''confirmation_code'']))"
    by (simp add: TokenSerializer_is_valid_def CharField_def strip_words)
  then show ?thesis
    by (simp add: token_def store0_def ann_def)
qed

section \<open>Theorems: signup\<close>

lemma strip_me: "strip ''me'' = ''me''"
  by (simp add: strip_def isspace_def)

lemma SignUpSerializer_is_valid_me:
  "SignUpSerializer_is_valid fw (data(''username'' \<mapsto> ''me'')) =
     Inl (ValidationError (if EmailField fw (data ''email'') = None then FieldErrors [''email'']
                           else UsernameMe_signup))"
  by (cases "EmailField fw (data ''email'')")
     (simp_all add: SignUpSerializer_is_valid_def SignUpSerializer_fields_def
        SignUpSerializer_validate_def CharField_def strip_me)

text \<open>
  C6. A signup whose username is \<open>me\<close> raises a validation error and leaves the store
  as it was (no user, no mail), whatever else the request holds: with a missing or
  invalid email the error names the field \<open>email\<close>, with a valid one it is the error of
  \<open>SignUpSerializer.validate\<close>. The client sees status 400.
\<close>

theorem signup_me_rejected:
  "signup fw st (data(''username'' \<mapsto> ''me'')) =
     (Inl (ValidationError (if EmailField fw (data ''email'') = None then FieldErrors [''email'']
                            else UsernameMe_signup)), st)
   \<and> http_status (fst (signup fw st (data(''username'' \<mapsto> ''me'')))) = 400"
  by (simp add: signup_def SignUpSerializer_is_valid_me)

lemma SignUpSerializer_is_valid_Inr:
  "SignUpSerializer_is_valid fw data = Inr d \<Longrightarrow> data ''username'' = Some u \<Longrightarrow>
   data ''email'' = Some e \<Longrightarrow>
   sd_username d = strip u \<and> sd_email d = strip e \<and> sd_username d \<noteq> ''me''"
  by (auto simp: SignUpSerializer_is_valid_def SignUpSerializer_fields_def
      SignUpSerializer_validate_def CharField_def EmailField_def
      split: sum.splits option.splits if_splits)

lemma SignUpSerializer_is_valid_Inl:
  "SignUpSerializer_is_valid fw data = Inl err \<Longrightarrow> \<exists>d. err = ValidationError d"
  by (auto simp: SignUpSerializer_is_valid_def SignUpSerializer_fields_def
      SignUpSerializer_validate_def split: sum.splits option.splits if_splits prod.splits)

lemma no_exact_pair:
  assumes "distinct (map username xs)" "distinct (map email xs)" "x \<in> set xs"
    "(username x = n \<and> email x \<noteq> m) \<or> (email x = m \<and> username x \<noteq> n)"
  shows "filter (\<lambda>y. username y = n \<and> email y = m) xs = []"
proof -
  have "\<not> (username y = n \<and> email y = m)" if "y \<in> set xs" for y
  proof
    assume both: "username y = n \<and> email y = m"
    from assms(4) show False
    proof
      assume "username x = n \<and> email x \<noteq> m"
      with both have "username y = username x" "y \<noteq> x" by auto
      with assms(1,3) that show False
        by (metis distinct_map inj_on_def)
    next
      assume "email x = m \<and> username x \<noteq> n"
      with both have "email y = email x" "y \<noteq> x" by auto
      with assms(2,3) that show False
        by (metis distinct_map inj_on_def)
    qed
  qed
  then show ?thesis
    by (simp add: filter_empty_conv)
qed

lemma create_conflict:
  assumes "x \<in> set (users st)" "n \<noteq> ''me''"
    "(username x = n \<and> email x \<noteq> m) \<or> (email x = m \<and> username x \<noteq> n)"
  shows "\<exists>c. User_objects_create st (new_User n m) = (Inl (IntegrityError c), st)"
proof -
  have "username x \<in> set (map username (users st))" "email x \<in> set (map email (users st))"
    using assms(1) by simp_all
  then have "\<exists>c. user_violation (users st) (new_User n m) = Some (IntegrityError c)"
    using assms(2,3) by (auto simp: user_violation_def new_User_def)
  then show ?thesis
    using assms(2)
    by (auto simp: User_objects_create_def User_save_def Model_save_User_def new_User_def)
qed

lemma get_or_create_conflict:
  assumes "distinct (map username (users st))" "distinct (map email (users st))"
    "x \<in> set (users st)" "n \<noteq> ''me''"
    "(username x = n \<and> email x \<noteq> m) \<or> (email x = m \<and> username x \<noteq> n)"
  shows "\<exists>c. User_objects_get_or_create st n m = (Inl (IntegrityError c), st)"
proof -
  have none: "objects_get (\<lambda>y. username y = n \<and> email y = m) (users st) = Inl DoesNotExist"
    using no_exact_pair [OF assms(1,2,3,5)] by (simp add: objects_get_def)
  from create_conflict [OF assms(3,4,5)] obtain c where
    "User_objects_create st (new_User n m) = (Inl (IntegrityError c), st)" ..
  then show ?thesis
    by (simp add: User_objects_get_or_create_def none)
qed

text \<open>
  C9. In a store whose usernames and emails are unique (the table's constraints), a
  signup whose username belongs to a user with another email, or whose email belongs to
  a user with another username, is answered 400 and leaves the store as it was: no user
  is created or changed and no mail is sent. Username and email are compared as the
  serializer cleans them, that is stripped of surrounding whitespace as Python's
  \<open>str.strip\<close> does.
\<close>

theorem signup_conflict:
  assumes "distinct (map username (users st))" "distinct (map email (users st))"
    "data ''username'' = Some u" "data ''email'' = Some e" "x \<in> set (users st)"
    "(username x = strip u \<and> email x \<noteq> strip e) \<or> (email x = strip e \<and> username x \<noteq> strip u)"
  shows "http_status (fst (signup fw st data)) = 400 \<and> snd (signup fw st data) = st"
proof (cases "SignUpSerializer_is_valid fw data")
  case (Inl err)
  then obtain d where "err = ValidationError d"
    using SignUpSerializer_is_valid_Inl by blast
  with Inl show ?thesis
    by (simp add: signup_def)
next
  case (Inr d)
  from SignUpSerializer_is_valid_Inr [OF Inr assms(3,4)]
  have d: "sd_username d = strip u" "sd_email d = strip e" "sd_username d \<noteq> ''me''"
    by blast+
  from get_or_create_conflict [OF assms(1,2,5), of "strip u" "strip e"] d assms(6)
  obtain c where "User_objects_get_or_create st (sd_username d) (sd_email d)
      = (Inl (IntegrityError c), st)"
    by auto
  with Inr show ?thesis
    by (simp add: signup_def)
qed

lemma strip_mails:
  "strip ''me@example.org'' = ''me@example.org''" "strip ''nonsense'' = ''nonsense''"
  "strip ''other@example.org'' = ''other@example.org''" "strip ''bob'' = ''bob''"
  "strip ''bob@example.org'' = ''bob@example.org''"
  by (simp_all add: strip_def isspace_def)

lemma EmailField_examples:
  "EmailField fw0 (Some ''me@example.org'') = Some ''me@example.org''"
  "EmailField fw0 (Some ''nonsense'') = None"
  "EmailField fw0 (Some ''bob@example.org'') = Some ''bob@example.org''"
  "EmailField fw0 None = None"
  by (simp_all add: EmailField_def CharField_def strip_mails fw0_def)

theorem signup_me_rejected_witness:
  "signup fw0 store0 [''email'' \<mapsto> ''me@example.org'', ''username'' \<mapsto> ''me'']
     = (Inl (ValidationError UsernameMe_signup), store0)
   \<and> signup fw0 store0 [''email'' \<mapsto> ''nonsense'', ''username'' \<mapsto> ''me'']
     = (Inl (ValidationError (FieldErrors [''email''])), store0)
   \<and> signup fw0 store0 [''username'' \<mapsto> ''me''] = (Inl (ValidationError (FieldErrors [''email''])), store0)"
  using signup_me_rejected [of fw0 store0 "[''email'' \<mapsto> ''me@example.org'']"]
    signup_me_rejected [of fw0 store0 "[''email'' \<mapsto> ''nonsense'']"]
    signup_me_rejected [of fw0 store0 Map.empty]
  by (simp add: EmailField_examples)

lemma signup_fresh:
  "signup fw0 store0 [''email'' \<mapsto> ''bob@example.org'', ''username'' \<mapsto> ''bob'']
     = (Inr \<lparr>status = 200,
             body = DictBody [(''email'', ''bob@example.org''), (''username'', ''bob'')]\<rparr>,
        store0\<lparr>users := [ann, bob],
               outbox := [(''bob@example.org'', ''Confirmation code'', ''code-bob'')]\<rparr>)"
proof -
  have v: "SignUpSerializer_is_valid fw0 [''email'' \<mapsto> ''bob@example.org'', ''username'' \<mapsto> ''bob'']
      = Inr \<lparr>sd_email = ''bob@example.org'', sd_username = ''bob''\<rparr>"
    by (simp add: SignUpSerializer_is_valid_def SignUpSerializer_fields_def
        SignUpSerializer_validate_def EmailField_examples CharField_def strip_mails)
  have g: "objects_get (\<lambda>x. username x = ''bob'' \<and> email x = ''bob@example.org'') (users store0)
      = Inl DoesNotExist"
    by (simp add: objects_get_def store0_def ann_def)
  have c: "User_objects_create store0 (new_User ''bob'' ''bob@example.org'')
      = (Inr bob, store0\<lparr>users := [ann, bob]\<rparr>)"
    by (simp add: User_objects_create_def User_save_def Model_save_User_def new_User_def
        user_violation_def store0_def ann_def bob_def next_pk_def USER_def Let_def)
  have "User_objects_get_or_create store0 ''bob'' ''bob@example.org''
      = (Inr bob, store0\<lparr>users := [ann, bob]\<rparr>)"
    by (simp add: User_objects_get_or_create_def g c)
  moreover have "make_token fw0 bob = ''code-bob''" "email bob = ''bob@example.org''"
    "outbox store0 = []"
    by (simp_all add: fw0_def bob_def store0_def)
  ultimately show ?thesis
    by (simp add: signup_def v email_user_def)
qed

lemma strip_padded:
  "strip (''ann@example.org'' @ [CHR 0xA0]) = ''ann@example.org''"
  "strip (''ann'' @ [CHR 0xA0]) = ''ann''"
  "strip ''ann@example.org'' = ''ann@example.org''"
  by (simp_all add: strip_def isspace_def)

text \<open>
  A pair that differs from a stored one only by surrounding whitespace is that pair once
  cleaned: the user is found, the answer is 200 and a new code is mailed.
\<close>

lemma signup_padded_pair_found:
  "signup fw0 store0 [''email'' \<mapsto> ''ann@example.org'' @ [CHR 0xA0], ''username'' \<mapsto> ''ann'']
     = (Inr \<lparr>status = 200,
             body = DictBody [(''email'', ''ann@example.org''), (''username'', ''ann'')]\<rparr>,
        store0\<lparr>outbox := [(''ann@example.org'', ''Confirmation code'', ''code-ann'')]\<rparr>)"
proof -
  have e: "EmailField fw0 (Some (''ann@example.org'' @ [CHR 0xA0])) = Some ''ann@example.org''"
    using strip_padded(1) by (simp add: EmailField_def CharField_def fw0_def)
  have v: "SignUpSerializer_is_valid fw0
      [''email'' \<mapsto> ''ann@example.org'' @ [CHR 0xA0], ''username'' \<mapsto> ''ann'']
      = Inr \<lparr>sd_email = ''ann@example.org'', sd_username = ''ann''\<rparr>"
    using e by (simp add: SignUpSerializer_is_valid_def SignUpSerializer_fields_def
        SignUpSerializer_validate_def CharField_def strip_words)
  have g: "User_objects_get_or_create store0 ''ann'' ''ann@example.org'' = (Inr ann, store0)"
    by (simp add: User_objects_get_or_create_def objects_get_def store0_def ann_def)
  have m: "make_token fw0 ann = ''code-ann''" "email ann = ''ann@example.org''" "outbox store0 = []"
    by (simp_all add: fw0_def ann_def store0_def)
  show ?thesis
    using v g m by (simp add: signup_def email_user_def)
qed

theorem signup_conflict_witness:
  "http_status (fst (signup fw0 store0 [''email'' \<mapsto> ''other@example.org'', ''username'' \<mapsto> ''ann''])) = 400
   \<and> snd (signup fw0 store0 [''email'' \<mapsto> ''other@example.org'', ''username'' \<mapsto> ''ann'']) = store0
   \<and> http_status (fst (signup fw0 store0
         [''email'' \<mapsto> ''other@example.org'', ''username'' \<mapsto> ''ann'' @ [CHR 0xA0]])) = 400
   \<and> snd (signup fw0 store0
         [''email'' \<mapsto> ''other@example.org'', ''username'' \<mapsto> ''ann'' @ [CHR 0xA0]]) = store0
   \<and> signup fw0 store0 [''email'' \<mapsto> ''bob@example.org'', ''username'' \<mapsto> ''bob'']
     = (Inr \<lparr>status = 200,
             body = DictBody [(''email'', ''bob@example.org''), (''username'', ''bob'')]\<rparr>,
        store0\<lparr>users := [ann, bob],
               outbox := [(''bob@example.org'', ''Confirmation code'', ''code-bob'')]\<rparr>)"
proof -
  have h: "distinct (map username (users store0))" "distinct (map email (users store0))"
    "ann \<in> set (users store0)"
    "(username ann = strip ''ann'' \<and> email ann \<noteq> strip ''other@example.org'')
     \<or> (email ann = strip ''other@example.org'' \<and> username ann \<noteq> strip ''ann'')"
    by (simp_all add: store0_def ann_def strip_mails strip_words)
  have k: "(username ann = strip (''ann'' @ [CHR 0xA0]) \<and> email ann \<noteq> strip ''other@example.org'')
     \<or> (email ann = strip ''other@example.org'' \<and> username ann \<noteq> strip (''ann'' @ [CHR 0xA0]))"
    by (simp add: ann_def strip_mails strip_padded del: append.simps)
  show ?thesis
    using signup_conflict [OF h(1,2) _ _ h(3,4),
        of "[''email'' \<mapsto> ''other@example.org'', ''username'' \<mapsto> ''ann'']" fw0]
      signup_conflict [OF h(1,2) _ _ h(3) k,
        of "[''email'' \<mapsto> ''other@example.org'', ''username'' \<mapsto> ''ann'' @ [CHR 0xA0]]" fw0]
      signup_fresh
    by simp
qed

section \<open>Theorems: saving a user named me\<close>

text \<open>
  C7, what the code does. \<open>User.save\<close> on a user named \<open>me\<close> raises nothing: it
  returns the \<open>ValidationError\<close> object as its value and leaves the store as it was, with
  or without \<open>force_insert\<close>. \<open>QuerySet.create\<close>, which drops the value of \<open>save\<close>,
  returns the unsaved instance as if it had been created. The check constraint of the
  table, which would refuse the row with an \<open>IntegrityError\<close>, is never asked.
\<close>

theorem User_save_me_returns_the_error:
  "User_save force_insert st (u\<lparr>username := ''me''\<rparr>)
     = (Inr (Some (ValidationError UsernameMe_save), u\<lparr>username := ''me''\<rparr>), st)
   \<and> User_objects_create st (u\<lparr>username := ''me''\<rparr>) = (Inr (u\<lparr>username := ''me''\<rparr>), st)
   \<and> user_violation others (u\<lparr>username := ''me''\<rparr>)
       = Some (IntegrityError ''check_username_not_me'')"
  by (simp add: User_save_def User_objects_create_def user_violation_def)

theorem User_save_me_returns_the_error_witness:
  "User_save False store0 me_user = (Inr (Some (ValidationError UsernameMe_save), me_user), store0)
   \<and> User_objects_create store0 me_user = (Inr me_user, store0)
   \<and> pk me_user = None"
proof -
  have m: "me_user\<lparr>username := ''me''\<rparr> = me_user"
    by (simp add: me_user_def new_User_def)
  show ?thesis
    using User_save_me_returns_the_error [of False store0 me_user "users store0"]
    by (simp add: m) (simp add: me_user_def new_User_def)
qed

section \<open>Theorems: the slug of a category or genre\<close>

lemma derived_slug_raises: "derived_slug slugify name = Inl TypeError"
  by (simp add: derived_slug_def)

lemma Category_save_explicit_slug:
  "category_slug c \<noteq> [] \<Longrightarrow> Category_save slugify st c = (Inr c', st') \<Longrightarrow>
   category_slug c' = category_slug c"
  by (auto simp: Category_save_def Model_save_Category_def Let_def
        split: option.splits if_splits)

lemma Genre_save_explicit_slug:
  "genre_slug g \<noteq> [] \<Longrightarrow> Genre_save slugify st g = (Inr g', st') \<Longrightarrow>
   genre_slug g' = genre_slug g"
  by (auto simp: Genre_save_def Model_save_Genre_def Let_def
        split: option.splits if_splits)

text \<open>
  C8, what the code does. Saving a category or a genre whose slug is empty raises
  \<open>TypeError\<close> and writes nothing, whatever the name and whatever \<open>slugify\<close> is: the
  expression adds the function \<open>rand_slug\<close> itself, not its result, to a string.
\<close>

theorem save_without_slug_raises:
  "Category_save slugify st (c\<lparr>category_slug := []\<rparr>) = (Inl TypeError, st)
   \<and> Genre_save slugify st (g\<lparr>genre_slug := []\<rparr>) = (Inl TypeError, st)"
  by (simp add: Category_save_def Genre_save_def derived_slug_raises)

theorem save_without_slug_raises_witness:
  "Category_save id store0 films = (Inl TypeError, store0)
   \<and> Genre_save id store0 rock = (Inl TypeError, store0)"
proof -
  have "films\<lparr>category_slug := []\<rparr> = films" "rock\<lparr>genre_slug := []\<rparr> = rock"
    by (simp_all add: films_def rock_def)
  then show ?thesis
    using save_without_slug_raises [of id store0 films rock] by simp
qed

section \<open>Theorems: deleting a genre\<close>

text \<open>
  C10. Deleting a genre deletes no row of the join table: the rows keep their keys and
  their titles, a row that pointed to the genre now points to nothing, every other row
  is as it was, and the genre itself is gone. Deleting a title, in contrast, removes
  exactly the join rows of that title.
\<close>

theorem Genre_delete_keeps_join_rows:
  "map gt_pk (genre_titles (Genre_delete st g)) = map gt_pk (genre_titles st)
   \<and> map gt_title (genre_titles (Genre_delete st g)) = map gt_title (genre_titles st)
   \<and> map gt_genre (genre_titles (Genre_delete st g))
       = map (\<lambda>x. if x = Some g then None else x) (map gt_genre (genre_titles st))
   \<and> Some g \<notin> set (map gt_genre (genre_titles (Genre_delete st g)))
   \<and> Some g \<notin> set (map genre_pk (genres (Genre_delete st g)))
   \<and> titles (Genre_delete st g) = titles st
   \<and> set (genre_titles (Title_delete st t)) = {j \<in> set (genre_titles st). gt_title j \<noteq> t}"
proof -
  let ?f = "\<lambda>j. if gt_genre j = Some g then j\<lparr>gt_genre := None\<rparr> else j"
  have a: "map gt_pk (map ?f js) = map gt_pk js" for js :: "GenreTitle list"
    by (induction js) auto
  have b: "map gt_title (map ?f js) = map gt_title js" for js :: "GenreTitle list"
    by (induction js) auto
  have c: "map gt_genre (map ?f js) = map (\<lambda>x. if x = Some g then None else x) (map gt_genre js)"
    for js :: "GenreTitle list"
    by (induction js) auto
  have d: "Some g \<notin> set (map (\<lambda>x. if x = Some g then None else x) xs)"
    for xs :: "nat option list"
    by (induction xs) auto
  have gt: "genre_titles (Genre_delete st g) = map ?f (genre_titles st)"
    by (simp add: Genre_delete_def)
  have e: "Some g \<notin> set (map gt_genre (genre_titles (Genre_delete st g)))"
    unfolding gt c by (rule d)
  have f: "Some g \<notin> set (map genre_pk (genres (Genre_delete st g)))"
    by (auto simp: Genre_delete_def)
  have h: "titles (Genre_delete st g) = titles st"
    by (simp add: Genre_delete_def)
  have i: "set (genre_titles (Title_delete st t)) = {j \<in> set (genre_titles st). gt_title j \<noteq> t}"
    by (simp add: Title_delete_def Let_def)
  show ?thesis
    using e f h i by (simp add: gt a b c)
qed

theorem Genre_delete_keeps_join_rows_witness:
  "genre_titles (Genre_delete store1 2)
     = [\<lparr>gt_pk = Some 1, gt_title = 5, gt_genre = None\<rparr>,
        \<lparr>gt_pk = Some 2, gt_title = 5, gt_genre = Some 7\<rparr>]
   \<and> map gt_pk (genre_titles (Genre_delete store1 2)) = map gt_pk (genre_titles store1)
   \<and> genre_titles (Title_delete store1 5) = []"
proof -
  have e: "genre_titles (Genre_delete store1 2)
     = [\<lparr>gt_pk = Some 1, gt_title = 5, gt_genre = None\<rparr>,
        \<lparr>gt_pk = Some 2, gt_title = 5, gt_genre = Some 7\<rparr>]"
    by (simp add: Genre_delete_def store1_def)
  have f: "{j \<in> set (genre_titles store1). gt_title j \<noteq> 5} = {}"
    by (auto simp: store1_def)
  show ?thesis
    using Genre_delete_keeps_join_rows [of store1 2 5] e f by simp
qed

end
